theory Spec2Isabelle
  imports Main "HOL-Library.Word"
begin

unbundle bit_operations_syntax

section \<open>Machine integers, errors and sequencing\<close>

text \<open>
  Go's fixed-width integers are words: arithmetic wraps around, conversions between
  widths are \<open>ucast\<close> (zero extension or truncation) and \<open>scast\<close> (sign extension).
  A Go \<open>string\<close> and a \<open>[]byte\<close> hold the same bytes, so the text fields of the
  boxes are byte lists; only the four-character box types are written as literals.
\<close>

type_synonym byte = "8 word"
type_synonym u16 = "16 word"
type_synonym u32 = "32 word"
type_synonym i32 = "32 word"
type_synonym u64 = "64 word"

text \<open>
  Everything that ends a call early is a value: the errors a function returns and the
  run-time panics of Go (nil dereference, slice bounds, failed type assertion).
\<close>

datatype error =
    ReadError
  | ShortWrite
  | OffsetBeyondSize
  | NoTrack u32
  | NilDereference
  | SliceBounds
  | TypeAssertion

fun is_panic :: "error \<Rightarrow> bool" where
  "is_panic NilDereference = True"
| "is_panic SliceBounds = True"
| "is_panic TypeAssertion = True"
| "is_panic _ = False"

definition bindE :: "'e + 'a \<Rightarrow> ('a \<Rightarrow> 'e + 'b) \<Rightarrow> 'e + 'b" where
  "bindE m f = (case m of Inl e \<Rightarrow> Inl e | Inr x \<Rightarrow> f x)"

section \<open>Byte order, slices, readers and writers\<close>

text \<open>\<open>binary.BigEndian.Uint32\<close> and \<open>PutUint32\<close> of the Go library, on four bytes.\<close>

definition Uint32 :: "byte list \<Rightarrow> u32" where
  "Uint32 b = ucast (b ! 3) OR push_bit 8 (ucast (b ! 2)) OR
              push_bit 16 (ucast (b ! 1)) OR push_bit 24 (ucast (b ! 0))"

definition PutUint32 :: "u32 \<Rightarrow> byte list" where
  "PutUint32 v = [ucast (drop_bit 24 v), ucast (drop_bit 16 v), ucast (drop_bit 8 v), ucast v]"

definition PutUint16 :: "u16 \<Rightarrow> byte list" where
  "PutUint16 v = [ucast (drop_bit 8 v), ucast v]"

definition PutUint64 :: "u64 \<Rightarrow> byte list" where
  "PutUint64 v = PutUint32 (ucast (drop_bit 32 v)) @ PutUint32 (ucast v)"

text \<open>
  A Go slice has a length and a capacity. \<open>elems\<close> are the bytes below the length,
  \<open>spare\<close> the bytes of the backing array between length and capacity. A slice
  expression \<open>a[low:high]\<close> on a slice is bounded by the capacity, not by the length:
  it panics only when \<open>high\<close> exceeds \<open>cap(a)\<close>, and below that it makes the spare
  bytes visible.
\<close>

record slice =
  elems :: "byte list"
  spare :: "byte list"

definition cap :: "slice \<Rightarrow> nat" where
  "cap s = length (elems s) + length (spare s)"

definition reslice :: "slice \<Rightarrow> nat \<Rightarrow> nat \<Rightarrow> error + slice" where
  "reslice s low high =
     (if low \<le> high \<and> high \<le> cap s
      then Inr \<lparr>elems = drop low (take high (elems s @ spare s)),
                spare = drop high (elems s @ spare s)\<rparr>
      else Inl SliceBounds)"

text \<open>
  A reader is what \<open>ioutil.ReadAll\<close> gets out of it: an I/O error, or all remaining
  bytes in a freshly allocated buffer. The buffer is allocated with room to spare
  (\<open>make([]byte, 0, 512)\<close> in the Go library), so the slice returned has a capacity
  above its length; \<open>room\<close> is that unused part of the buffer.
\<close>

datatype Reader = Reader (remaining: "byte list") (room: "byte list") | BrokenReader

fun ReadAll :: "Reader \<Rightarrow> error + slice" where
  "ReadAll (Reader bs sp) = Inr \<lparr>elems = bs, spare = sp\<rparr>"
| "ReadAll BrokenReader = Inl ReadError"

text \<open>
  A writer collects the bytes written to it and accepts \<open>space\<close> more bytes; a
  \<open>Write\<close> beyond that fails, as an \<open>io.Writer\<close> may.
\<close>

record Writer =
  out :: "byte list"
  space :: nat

definition Write :: "Writer \<Rightarrow> byte list \<Rightarrow> error + Writer" where
  "Write w p =
     (if length p \<le> space w
      then Inr \<lparr>out = out w @ p, space = space w - length p\<rparr>
      else Inl ShortWrite)"

subsection \<open>Slice cursors\<close>

text \<open>
  Modelled from the spec: \<open>SliceReader\<close> and \<open>SliceWriter\<close> are declared in another
  file; the spec describes them as fixed-endian (big-endian throughout) integer
  read and write over a byte slice cursor, with zero-fill. The methods return plain
  values (\<open>versionAndFlags := s.ReadUint32()\<close>) and have no error to return, so a read
  or write that does not fit the slice is a panic.
\<close>

record SliceReader =
  rslice :: "byte list"
  rpos :: nat

definition NewSliceReader :: "slice \<Rightarrow> SliceReader" where
  "NewSliceReader data = \<lparr>rslice = elems data, rpos = 0\<rparr>"

definition ReadUint32 :: "SliceReader \<Rightarrow> error + (u32 \<times> SliceReader)" where
  "ReadUint32 s =
     (if rpos s + 4 \<le> length (rslice s)
      then Inr (Uint32 (take 4 (drop (rpos s) (rslice s))), s\<lparr>rpos := rpos s + 4\<rparr>)
      else Inl SliceBounds)"

record SliceWriter =
  buf :: "byte list"
  pos :: nat

definition NewSliceWriter :: "byte list \<Rightarrow> SliceWriter" where
  "NewSliceWriter b = \<lparr>buf = b, pos = 0\<rparr>"

definition put :: "SliceWriter \<Rightarrow> byte list \<Rightarrow> error + SliceWriter" where
  "put sw p =
     (if pos sw + length p \<le> length (buf sw)
      then Inr \<lparr>buf = take (pos sw) (buf sw) @ p @ drop (pos sw + length p) (buf sw),
                pos = pos sw + length p\<rparr>
      else Inl SliceBounds)"

definition WriteUint32 :: "SliceWriter \<Rightarrow> u32 \<Rightarrow> error + SliceWriter" where
  "WriteUint32 sw v = put sw (PutUint32 v)"

definition WriteUint16 :: "SliceWriter \<Rightarrow> u16 \<Rightarrow> error + SliceWriter" where
  "WriteUint16 sw v = put sw (PutUint16 v)"

definition WriteZeroBytes :: "SliceWriter \<Rightarrow> nat \<Rightarrow> error + SliceWriter" where
  "WriteZeroBytes sw n = put sw (replicate n 0)"

section \<open>The boxes of \<open>wvtt.go\<close> and the null media header\<close>

text \<open>
  The constants of the box layer that these boxes use: the 8-byte box header and
  the 24-bit flags of a FullBox.
\<close>

abbreviation (input) boxHeaderSize :: nat where "boxHeaderSize \<equiv> 8"
abbreviation (input) nrWvttBytesBeforeChildren :: nat where "nrWvttBytesBeforeChildren \<equiv> 16"
abbreviation (input) flagsMask :: u32 where "flagsMask \<equiv> 0x00ffffff"

text \<open>
  One constructor for each box struct, with the fields in the order of the struct:
  \<open>NmhdBox Version Flags\<close>, \<open>WvttBox VttC Vlab Btrt Children DataReferenceIndex\<close>,
  \<open>VttCBox Config\<close>, \<open>VlabBox SourceLabel\<close>, \<open>VtteBox\<close>,
  \<open>VttcBox Vsid Iden Ctim Sttg Payl Children\<close>, \<open>VsidBox SourceID\<close>,
  \<open>CtimBox CueCurrentTime\<close>, \<open>IdenBox CueID\<close>, \<open>SttgBox Settings\<close>,
  \<open>PaylBox CueText\<close>, \<open>VttaBox CueAdditionalText\<close>.
  \<open>Children\<close> holds values of the interface \<open>Box\<close>, so a child may be of a type
  declared in another file (\<open>btrt\<close>, the carrier of unknown types, ...). Such a box
  is \<open>ExternBox\<close>, given by what its methods return: its type, its \<open>Size()\<close> and the
  bytes its \<open>Encode\<close> writes.
\<close>

datatype Box =
    NmhdBox byte u32
  | WvttBox "Box option" "Box option" "Box option" "Box list" u16
  | VttCBox "byte list"
  | VlabBox "byte list"
  | VtteBox
  | VttcBox "Box option" "Box option" "Box option" "Box option" "Box option" "Box list"
  | VsidBox u32
  | CtimBox "byte list"
  | IdenBox "byte list"
  | SttgBox "byte list"
  | PaylBox "byte list"
  | VttaBox "byte list"
  | ExternBox string u64 "byte list"

fun Type :: "Box \<Rightarrow> string" where
  "Type (NmhdBox _ _) = ''nmhd''"
| "Type (WvttBox _ _ _ _ _) = ''wvtt''"
| "Type (VttCBox _) = ''vttC''"
| "Type (VlabBox _) = ''vlab''"
| "Type VtteBox = ''vtte''"
| "Type (VttcBox _ _ _ _ _ _) = ''vttc''"
| "Type (VsidBox _) = ''vsid''"
| "Type (CtimBox _) = ''ctim''"
| "Type (IdenBox _) = ''iden''"
| "Type (SttgBox _) = ''sttg''"
| "Type (PaylBox _) = ''payl''"
| "Type (VttaBox _) = ''vtta''"
| "Type (ExternBox name _ _) = name"

text \<open>
  Modelled from the spec: \<open>containerSize\<close> is declared in another file; the spec
  gives it as header size plus the sum of the children's sizes.
\<close>

definition containerSize :: "u64 list \<Rightarrow> u64" where
  "containerSize sizes = fold (\<lambda>s total. total + s) sizes (of_nat boxHeaderSize)"

fun Size :: "Box \<Rightarrow> u64" where
  "Size (NmhdBox _ _) = of_nat (boxHeaderSize + 4)"
| "Size (WvttBox _ _ _ children _) =
     fold (\<lambda>child totalSize. totalSize + Size child) children (of_nat nrWvttBytesBeforeChildren)"
| "Size (VttCBox config) = of_nat (boxHeaderSize + length config)"
| "Size (VlabBox sourceLabel) = of_nat (boxHeaderSize + length sourceLabel)"
| "Size VtteBox = of_nat boxHeaderSize"
| "Size (VttcBox _ _ _ _ _ children) = containerSize (map Size children)"
| "Size (VsidBox _) = of_nat (boxHeaderSize + 4)"
| "Size (CtimBox cueCurrentTime) = of_nat (boxHeaderSize + length cueCurrentTime)"
| "Size (IdenBox cueID) = of_nat (boxHeaderSize + length cueID)"
| "Size (SttgBox settings) = of_nat (boxHeaderSize + length settings)"
| "Size (PaylBox cueText) = of_nat (boxHeaderSize + length cueText)"
| "Size (VttaBox cueAdditionalText) = of_nat (boxHeaderSize + length cueAdditionalText)"
| "Size (ExternBox _ sz _) = sz"

text \<open>
  Modelled from the spec: \<open>EncodeHeader\<close> is declared in another file. The spec:
  it writes the preamble based on \<open>box.size()\<close>, the 32-bit size and the four-byte
  type, and chooses the 64-bit form (\<open>1\<close> in the 32-bit field, then the type, then a
  64-bit largesize) when the size exceeds \<open>2^32 - 1\<close>.
\<close>

definition EncodeHeader :: "Box \<Rightarrow> Writer \<Rightarrow> error + Writer" where
  "EncodeHeader b w =
     (if Size b > 0xFFFFFFFF
      then Write w (PutUint32 1 @ map of_char (Type b) @ PutUint64 (Size b))
      else Write w (PutUint32 (ucast (Size b)) @ map of_char (Type b)))"

text \<open>
  Modelled from the spec: \<open>makebuf\<close> is declared in another file, and the spec has no
  sentence on it. It is taken to allocate the buffer for the payload of the box,
  \<open>Size() - boxHeaderSize\<close> zero bytes, the length that the spec's rule on sizes (a
  box's size is byte-exact with what its encoder writes) asks of it. \<open>NmhdBox.Encode\<close>
  writes the whole buffer, so what it writes has the length chosen here;
  \<open>WvttBox.Encode\<close> writes the eight bytes it has filled.
\<close>

definition makebuf :: "Box \<Rightarrow> byte list" where
  "makebuf b = replicate (unat (Size b - of_nat boxHeaderSize)) 0"

text \<open>
  Modelled from the spec: \<open>EncodeContainer\<close> is declared in another file; by the spec
  it writes the header, then each child in insertion order. It is the case of
  \<open>VttcBox\<close> below. The other cases are the \<open>Encode\<close> methods as the file has them;
  every \<open>if err != nil { return err }\<close> is a \<open>bindE\<close>, and \<open>EncodeChildren\<close> is the
  loop over \<open>Children\<close>.
\<close>

fun Encode :: "Box \<Rightarrow> Writer \<Rightarrow> error + Writer"
  and EncodeChildren :: "Box list \<Rightarrow> Writer \<Rightarrow> error + Writer" where
  "Encode (NmhdBox version flags) w =
     bindE (EncodeHeader (NmhdBox version flags) w) (\<lambda>w.
     bindE (WriteUint32 (NewSliceWriter (makebuf (NmhdBox version flags)))
              (push_bit 24 (ucast version) + flags)) (\<lambda>sw.
     Write w (buf sw)))"
| "Encode (WvttBox vttC vlab btrt children dataReferenceIndex) w =
     bindE (EncodeHeader (WvttBox vttC vlab btrt children dataReferenceIndex) w) (\<lambda>w.
     bindE (WriteZeroBytes
              (NewSliceWriter (makebuf (WvttBox vttC vlab btrt children dataReferenceIndex))) 6) (\<lambda>sw.
     bindE (WriteUint16 sw dataReferenceIndex) (\<lambda>sw.
     bindE (Write w (take (pos sw) (buf sw))) (\<lambda>w.
     EncodeChildren children w))))"
| "Encode (VttCBox config) w =
     bindE (EncodeHeader (VttCBox config) w) (\<lambda>w. Write w config)"
| "Encode (VlabBox sourceLabel) w =
     bindE (EncodeHeader (VlabBox sourceLabel) w) (\<lambda>w. Write w sourceLabel)"
| "Encode VtteBox w = EncodeHeader VtteBox w"
| "Encode (VttcBox vsid iden ctim sttg payl children) w =
     bindE (EncodeHeader (VttcBox vsid iden ctim sttg payl children) w) (\<lambda>w.
     EncodeChildren children w)"
| "Encode (VsidBox sourceID) w =
     bindE (EncodeHeader (VsidBox sourceID) w) (\<lambda>w. Write w (PutUint32 sourceID))"
| "Encode (CtimBox cueCurrentTime) w =
     bindE (EncodeHeader (CtimBox cueCurrentTime) w) (\<lambda>w. Write w cueCurrentTime)"
| "Encode (IdenBox cueID) w =
     bindE (EncodeHeader (IdenBox cueID) w) (\<lambda>w. Write w cueID)"
| "Encode (SttgBox settings) w =
     bindE (EncodeHeader (SttgBox settings) w) (\<lambda>w. Write w settings)"
| "Encode (PaylBox cueText) w =
     bindE (EncodeHeader (PaylBox cueText) w) (\<lambda>w. Write w cueText)"
| "Encode (VttaBox cueAdditionalText) w =
     bindE (EncodeHeader (VttaBox cueAdditionalText) w) (\<lambda>w. Write w cueAdditionalText)"
| "Encode (ExternBox name sz bytes) w = Write w bytes"
| "EncodeChildren [] w = Inr w"
| "EncodeChildren (child # children) w =
     bindE (Encode child w) (\<lambda>w. EncodeChildren children w)"

subsection \<open>Decoders\<close>

text \<open>
  A decoder gets the box header already read, the start position and a reader limited
  to the payload. Of the header these decoders use the declared size only; the spec
  lists size and type. The decoders of the two containers (\<open>DecodeWvtt\<close>,
  \<open>DecodeVttc\<close>) hand their payload back to the box dispatcher, which is declared in
  another file; the decoders below are the ones that read their payload themselves.
\<close>

record boxHeader =
  hdr_name :: string
  hdr_size :: u64

definition DecodeNmhd :: "boxHeader \<Rightarrow> u64 \<Rightarrow> Reader \<Rightarrow> error + Box" where
  "DecodeNmhd hdr startPos r =
     bindE (ReadAll r) (\<lambda>data.
     bindE (ReadUint32 (NewSliceReader data)) (\<lambda>(versionAndFlags, s).
     Inr (NmhdBox (ucast (drop_bit 24 versionAndFlags)) (versionAndFlags AND flagsMask))))"

definition DecodeVttC :: "boxHeader \<Rightarrow> u64 \<Rightarrow> Reader \<Rightarrow> error + Box" where
  "DecodeVttC hdr startPos r = bindE (ReadAll r) (\<lambda>data. Inr (VttCBox (elems data)))"

definition DecodeVlab :: "boxHeader \<Rightarrow> u64 \<Rightarrow> Reader \<Rightarrow> error + Box" where
  "DecodeVlab hdr startPos r = bindE (ReadAll r) (\<lambda>data. Inr (VlabBox (elems data)))"

definition DecodeVtte :: "boxHeader \<Rightarrow> u64 \<Rightarrow> Reader \<Rightarrow> error + Box" where
  "DecodeVtte hdr startPos r = Inr VtteBox"

definition DecodeVsid :: "boxHeader \<Rightarrow> u64 \<Rightarrow> Reader \<Rightarrow> error + Box" where
  "DecodeVsid hdr startPos r =
     bindE (ReadAll r) (\<lambda>data.
     bindE (reslice data 0 4) (\<lambda>d.
     Inr (VsidBox (Uint32 (elems d)))))"

definition DecodeCtim :: "boxHeader \<Rightarrow> u64 \<Rightarrow> Reader \<Rightarrow> error + Box" where
  "DecodeCtim hdr startPos r = bindE (ReadAll r) (\<lambda>data. Inr (CtimBox (elems data)))"

definition DecodeIden :: "boxHeader \<Rightarrow> u64 \<Rightarrow> Reader \<Rightarrow> error + Box" where
  "DecodeIden hdr startPos r = bindE (ReadAll r) (\<lambda>data. Inr (IdenBox (elems data)))"

definition DecodeSttg :: "boxHeader \<Rightarrow> u64 \<Rightarrow> Reader \<Rightarrow> error + Box" where
  "DecodeSttg hdr startPos r = bindE (ReadAll r) (\<lambda>data. Inr (SttgBox (elems data)))"

definition DecodePayl :: "boxHeader \<Rightarrow> u64 \<Rightarrow> Reader \<Rightarrow> error + Box" where
  "DecodePayl hdr startPos r = bindE (ReadAll r) (\<lambda>data. Inr (PaylBox (elems data)))"

definition DecodeVtta :: "boxHeader \<Rightarrow> u64 \<Rightarrow> Reader \<Rightarrow> error + Box" where
  "DecodeVtta hdr startPos r = bindE (ReadAll r) (\<lambda>data. Inr (VttaBox (elems data)))"

text \<open>
  The bytes of a box on the wire, with the 8-byte header of the wire format (32-bit
  size, four-byte type), and the header and reader a decoder is given for them.
\<close>

definition boxBytes :: "string \<Rightarrow> byte list \<Rightarrow> byte list" where
  "boxBytes typ payload =
     PutUint32 (of_nat (boxHeaderSize + length payload)) @ map of_char typ @ payload"

definition headerOf :: "string \<Rightarrow> byte list \<Rightarrow> boxHeader" where
  "headerOf typ payload =
     \<lparr>hdr_name = typ, hdr_size = of_nat (boxHeaderSize + length payload)\<rparr>"

text \<open>
  The decoders above under their box types, and the payload length each of them
  reads: four bytes for \<open>nmhd\<close> and \<open>vsid\<close>, none for \<open>vtte\<close>, the whole payload for the
  text boxes.
\<close>

definition leafDecoders :: "(string \<times> (boxHeader \<Rightarrow> u64 \<Rightarrow> Reader \<Rightarrow> error + Box)) list" where
  "leafDecoders =
     [(''nmhd'', DecodeNmhd), (''vttC'', DecodeVttC), (''vlab'', DecodeVlab),
      (''vtte'', DecodeVtte), (''vsid'', DecodeVsid), (''ctim'', DecodeCtim),
      (''iden'', DecodeIden), (''sttg'', DecodeSttg), (''payl'', DecodePayl),
      (''vtta'', DecodeVtta)]"

definition payloadRead :: "string \<Rightarrow> nat \<Rightarrow> bool" where
  "payloadRead typ n =
     (if typ = ''nmhd'' \<or> typ = ''vsid'' then n = 4
      else if typ = ''vtte'' then n = 0
      else True)"

text \<open>
  The size of a box computed in the natural numbers, that is without the wrap-around
  of \<open>uint64\<close>, and whether the boxes of other files inside a box write as many bytes
  as their own \<open>Size()\<close> says.
\<close>

fun plainSize :: "Box \<Rightarrow> nat" where
  "plainSize (NmhdBox _ _) = boxHeaderSize + 4"
| "plainSize (WvttBox _ _ _ children _) =
     nrWvttBytesBeforeChildren + sum_list (map plainSize children)"
| "plainSize (VttCBox config) = boxHeaderSize + length config"
| "plainSize (VlabBox sourceLabel) = boxHeaderSize + length sourceLabel"
| "plainSize VtteBox = boxHeaderSize"
| "plainSize (VttcBox _ _ _ _ _ children) = boxHeaderSize + sum_list (map plainSize children)"
| "plainSize (VsidBox _) = boxHeaderSize + 4"
| "plainSize (CtimBox cueCurrentTime) = boxHeaderSize + length cueCurrentTime"
| "plainSize (IdenBox cueID) = boxHeaderSize + length cueID"
| "plainSize (SttgBox settings) = boxHeaderSize + length settings"
| "plainSize (PaylBox cueText) = boxHeaderSize + length cueText"
| "plainSize (VttaBox cueAdditionalText) = boxHeaderSize + length cueAdditionalText"
| "plainSize (ExternBox _ sz _) = unat sz"

fun externsExact :: "Box \<Rightarrow> bool" where
  "externsExact (WvttBox _ _ _ children _) = list_all externsExact children"
| "externsExact (VttcBox _ _ _ _ _ children) = list_all externsExact children"
| "externsExact (ExternBox _ sz bytes) = (length bytes = unat sz)"
| "externsExact _ = True"

section \<open>Fragments\<close>

text \<open>
  The boxes of a fragment are shared through pointers and changed in place, so they
  live in a store: one map from addresses to values for each box type, and \<open>fresh\<close>,
  the next unused address. A pointer is an address or nil (\<open>None\<close>); reading or writing
  through nil panics.
\<close>

type_synonym addr = nat
type_synonym ptr = "addr option"

text \<open>
  Modelled from the spec: the structs of the fragment boxes are declared in other files.
  The records below have the fields that the fragment code reads, with the names it uses,
  and the fields of the spec's data model; a method called there that only tests
  a flag bit or returns a stored value (\<open>HasBaseDataOffset()\<close>, \<open>DefaultBaseIfMoof()\<close>,
  \<open>HasDataOffset()\<close>, \<open>PayloadAbsoluteOffset()\<close>, \<open>SampleCount()\<close>) is a field.
\<close>

record Sample =
  Flags :: u32
  Dur :: u32
  SampleSize :: u32
  Cto :: i32

record FullSample = Sample +
  DecodeTime :: u64
  Data :: "byte list"

record TrexBox =
  TrackID :: u32
  DefaultSampleDuration :: u32
  DefaultSampleSize :: u32
  DefaultSampleFlags :: u32

record MfhdBox =
  SequenceNumber :: u32

record TfhdBox =
  TrackID :: u32
  HasBaseDataOffset :: bool
  DefaultBaseIfMoof :: bool
  BaseDataOffset :: u64
  DefaultSampleDuration :: "u32 option"
  DefaultSampleSize :: "u32 option"
  DefaultSampleFlags :: "u32 option"

record TfdtBox =
  BaseMediaDecodeTime :: u64

record TrunBox =
  SampleCount :: u32
  HasDataOffset :: bool
  DataOffset :: i32
  FirstSampleFlags :: "u32 option"
  HasSampleDuration :: bool
  HasSampleSize :: bool
  HasSampleFlags :: bool
  HasSampleCTO :: bool
  Samples :: "Sample list"

record MdatBox =
  PayloadAbsoluteOffset :: u64
  Data :: "byte list"

record TrafBox =
  Tfhd :: ptr
  Tfdt :: ptr
  Trun :: ptr
  Truns :: "ptr list"

record MoofBox =
  Mfhd :: ptr
  Traf :: ptr
  Trafs :: "ptr list"
  StartPos :: u64

record heap =
  moofs :: "addr \<Rightarrow> MoofBox option"
  mfhds :: "addr \<Rightarrow> MfhdBox option"
  trafs :: "addr \<Rightarrow> TrafBox option"
  tfhds :: "addr \<Rightarrow> TfhdBox option"
  tfdts :: "addr \<Rightarrow> TfdtBox option"
  truns :: "addr \<Rightarrow> TrunBox option"
  mdats :: "addr \<Rightarrow> MdatBox option"
  fresh :: addr

definition emptyHeap :: heap where
  "emptyHeap = \<lparr>moofs = Map.empty, mfhds = Map.empty, trafs = Map.empty, tfhds = Map.empty,
                 tfdts = Map.empty, truns = Map.empty, mdats = Map.empty, fresh = 0\<rparr>"

definition deref :: "(addr \<Rightarrow> 'a option) \<Rightarrow> ptr \<Rightarrow> error + 'a" where
  "deref m p =
     (case p of
        None \<Rightarrow> Inl NilDereference
      | Some a \<Rightarrow> (case m a of None \<Rightarrow> Inl NilDereference | Some v \<Rightarrow> Inr v))"


subsection \<open>Methods of the fragment boxes\<close>

text \<open>
  Modelled from the spec: the constructors and methods below are declared in other
  files. From the spec: a new fragment has an \<open>mfhd\<close> with the sequence number, a
  \<open>tfhd\<close> with the track ID, an empty \<open>tfdt\<close> (value \<open>0\<close>), an empty \<open>trun\<close> (sample
  count \<open>0\<close>) and an empty \<open>mdat\<close>; a run made for adding samples stores the four
  per-sample fields and a data offset, relative to the \<open>moof\<close> (the single-sample
  scenario of the spec); \<open>add_child\<close> of a container appends the child and
  updates the typed accessor; the accessor \<open>Traf\<close> of a \<open>moof\<close> is its first \<open>traf\<close>
  (\<open>moof.Traf // The first one\<close> in \<open>GetFullSamples\<close>) and the accessor \<open>Trun\<close> the
  current, first run; adding a sample appends it to the run and counts it, and
  appends its data to the \<open>mdat\<close>.
\<close>

definition newMoof :: "heap \<Rightarrow> ptr \<times> heap" where
  "newMoof h = (Some (fresh h),
     h\<lparr>moofs := (moofs h)(fresh h \<mapsto> \<lparr>Mfhd = None, Traf = None, Trafs = [], StartPos = 0\<rparr>),
       fresh := Suc (fresh h)\<rparr>)"

definition newTraf :: "heap \<Rightarrow> ptr \<times> heap" where
  "newTraf h = (Some (fresh h),
     h\<lparr>trafs := (trafs h)(fresh h \<mapsto> \<lparr>Tfhd = None, Tfdt = None, Trun = None, Truns = []\<rparr>),
       fresh := Suc (fresh h)\<rparr>)"

definition newTfdt :: "heap \<Rightarrow> ptr \<times> heap" where
  "newTfdt h = (Some (fresh h),
     h\<lparr>tfdts := (tfdts h)(fresh h \<mapsto> \<lparr>BaseMediaDecodeTime = 0\<rparr>),
       fresh := Suc (fresh h)\<rparr>)"

definition newMdat :: "heap \<Rightarrow> ptr \<times> heap" where
  "newMdat h = (Some (fresh h),
     h\<lparr>mdats := (mdats h)(fresh h \<mapsto> \<lparr>PayloadAbsoluteOffset = 0, Data = []\<rparr>),
       fresh := Suc (fresh h)\<rparr>)"

definition CreateMfhd :: "heap \<Rightarrow> u32 \<Rightarrow> ptr \<times> heap" where
  "CreateMfhd h seqNumber = (Some (fresh h),
     h\<lparr>mfhds := (mfhds h)(fresh h \<mapsto> \<lparr>SequenceNumber = seqNumber\<rparr>),
       fresh := Suc (fresh h)\<rparr>)"

definition CreateTfhd :: "heap \<Rightarrow> u32 \<Rightarrow> ptr \<times> heap" where
  "CreateTfhd h trackID = (Some (fresh h),
     h\<lparr>tfhds := (tfhds h)(fresh h \<mapsto>
         \<lparr>TfhdBox.TrackID = trackID, HasBaseDataOffset = False, DefaultBaseIfMoof = True,
          BaseDataOffset = 0, DefaultSampleDuration = None, DefaultSampleSize = None,
          DefaultSampleFlags = None\<rparr>),
       fresh := Suc (fresh h)\<rparr>)"

definition CreateTrun :: "heap \<Rightarrow> ptr \<times> heap" where
  "CreateTrun h = (Some (fresh h),
     h\<lparr>truns := (truns h)(fresh h \<mapsto>
         \<lparr>SampleCount = 0, HasDataOffset = True, DataOffset = 0, FirstSampleFlags = None,
          HasSampleDuration = True, HasSampleSize = True, HasSampleFlags = True,
          HasSampleCTO = True, Samples = []\<rparr>),
       fresh := Suc (fresh h)\<rparr>)"

definition modify :: "(addr \<Rightarrow> 'a option) \<Rightarrow> ptr \<Rightarrow> ('a \<Rightarrow> 'a) \<Rightarrow> error + (addr \<Rightarrow> 'a option)" where
  "modify m p g =
     (case p of
        None \<Rightarrow> Inl NilDereference
      | Some a \<Rightarrow> (case m a of None \<Rightarrow> Inl NilDereference | Some v \<Rightarrow> Inr (m(a \<mapsto> g v))))"

definition MoofAddMfhd :: "heap \<Rightarrow> ptr \<Rightarrow> ptr \<Rightarrow> error + heap" where
  "MoofAddMfhd h moof mfhd =
     bindE (modify (moofs h) moof (\<lambda>m. m\<lparr>Mfhd := mfhd\<rparr>)) (\<lambda>ms. Inr (h\<lparr>moofs := ms\<rparr>))"

definition MoofAddTraf :: "heap \<Rightarrow> ptr \<Rightarrow> ptr \<Rightarrow> error + heap" where
  "MoofAddTraf h moof traf =
     bindE (modify (moofs h) moof
              (\<lambda>m. m\<lparr>Traf := (if Traf m = None then traf else Traf m), Trafs := Trafs m @ [traf]\<rparr>))
       (\<lambda>ms. Inr (h\<lparr>moofs := ms\<rparr>))"

definition TrafAddTfhd :: "heap \<Rightarrow> ptr \<Rightarrow> ptr \<Rightarrow> error + heap" where
  "TrafAddTfhd h traf tfhd =
     bindE (modify (trafs h) traf (\<lambda>t. t\<lparr>Tfhd := tfhd\<rparr>)) (\<lambda>ts. Inr (h\<lparr>trafs := ts\<rparr>))"

definition TrafAddTfdt :: "heap \<Rightarrow> ptr \<Rightarrow> ptr \<Rightarrow> error + heap" where
  "TrafAddTfdt h traf tfdt =
     bindE (modify (trafs h) traf (\<lambda>t. t\<lparr>Tfdt := tfdt\<rparr>)) (\<lambda>ts. Inr (h\<lparr>trafs := ts\<rparr>))"

definition TrafAddTrun :: "heap \<Rightarrow> ptr \<Rightarrow> ptr \<Rightarrow> error + heap" where
  "TrafAddTrun h traf trun =
     bindE (modify (trafs h) traf
              (\<lambda>t. t\<lparr>Trun := (if Trun t = None then trun else Trun t), Truns := Truns t @ [trun]\<rparr>))
       (\<lambda>ts. Inr (h\<lparr>trafs := ts\<rparr>))"

definition SetBaseMediaDecodeTime :: "heap \<Rightarrow> ptr \<Rightarrow> u64 \<Rightarrow> error + heap" where
  "SetBaseMediaDecodeTime h tfdt bTime =
     bindE (modify (tfdts h) tfdt (\<lambda>t. t\<lparr>BaseMediaDecodeTime := bTime\<rparr>))
       (\<lambda>ts. Inr (h\<lparr>tfdts := ts\<rparr>))"

definition AddSample :: "heap \<Rightarrow> ptr \<Rightarrow> Sample \<Rightarrow> error + heap" where
  "AddSample h trun s =
     bindE (modify (truns h) trun
              (\<lambda>t. t\<lparr>Samples := Samples t @ [s], SampleCount := SampleCount t + 1\<rparr>))
       (\<lambda>ts. Inr (h\<lparr>truns := ts\<rparr>))"

definition AddSampleData :: "heap \<Rightarrow> ptr \<Rightarrow> byte list \<Rightarrow> error + heap" where
  "AddSampleData h mdat s =
     bindE (modify (mdats h) mdat (\<lambda>m. m\<lparr>MdatBox.Data := MdatBox.Data m @ s\<rparr>))
       (\<lambda>ms. Inr (h\<lparr>mdats := ms\<rparr>))"

text \<open>
  Modelled from the spec: \<open>AddSampleDefaultValues\<close> and the \<open>GetFullSamples\<close> of a run
  are declared in other files. From the spec: each sample's duration, size, flags and
  composition offset come from the first present source of per-sample field, \<open>tfhd\<close>
  default, \<open>trex\<close> default, zero; for the first sample \<open>first_sample_flags\<close>, if
  present, replaces the flags source when the run has no per-sample flags; the total
  duration is the sum of the durations. The samples are produced by walking the
  \<open>mdat\<close> data from the offset, \<open>size\<close> bytes per sample, with the running decode
  time advanced by each duration; a sample that reaches beyond the data is a slice out
  of bounds.
\<close>

definition resolveSample :: "TrunBox \<Rightarrow> TfhdBox \<Rightarrow> TrexBox option \<Rightarrow> bool \<Rightarrow> Sample \<Rightarrow> Sample" where
  "resolveSample trun tfhd trex first s =
     \<lparr>Flags =
        (if HasSampleFlags trun then Flags s
         else case (if first then FirstSampleFlags trun else None) of
                Some v \<Rightarrow> v
              | None \<Rightarrow>
                  (case TfhdBox.DefaultSampleFlags tfhd of
                     Some v \<Rightarrow> v
                   | None \<Rightarrow>
                       (case trex of Some tx \<Rightarrow> TrexBox.DefaultSampleFlags tx | None \<Rightarrow> 0))),
      Dur =
        (if HasSampleDuration trun then Dur s
         else case TfhdBox.DefaultSampleDuration tfhd of
                Some v \<Rightarrow> v
              | None \<Rightarrow> (case trex of Some tx \<Rightarrow> TrexBox.DefaultSampleDuration tx | None \<Rightarrow> 0)),
      SampleSize =
        (if HasSampleSize trun then SampleSize s
         else case TfhdBox.DefaultSampleSize tfhd of
                Some v \<Rightarrow> v
              | None \<Rightarrow> (case trex of Some tx \<Rightarrow> TrexBox.DefaultSampleSize tx | None \<Rightarrow> 0)),
      Cto = (if HasSampleCTO trun then Cto s else 0)\<rparr>"

definition AddSampleDefaultValues :: "TrunBox \<Rightarrow> TfhdBox \<Rightarrow> TrexBox option \<Rightarrow> TrunBox \<times> u64" where
  "AddSampleDefaultValues trun tfhd trex =
     (let resolved =
            (case Samples trun of
               [] \<Rightarrow> []
             | s # ss \<Rightarrow> resolveSample trun tfhd trex True s #
                         map (resolveSample trun tfhd trex False) ss)
      in (trun\<lparr>Samples := resolved\<rparr>, sum_list (map (\<lambda>s. ucast (Dur s)) resolved)))"

fun walkSamples :: "byte list \<Rightarrow> Sample list \<Rightarrow> nat \<Rightarrow> u64 \<Rightarrow> error + FullSample list" where
  "walkSamples data [] offset time = Inr []"
| "walkSamples data (s # ss) offset time =
     (if offset + unat (SampleSize s) \<le> length data
      then bindE (walkSamples data ss (offset + unat (SampleSize s)) (time + ucast (Dur s)))
             (\<lambda>rest. Inr (Sample.extend s
                \<lparr>DecodeTime = time,
                 FullSample.Data = take (unat (SampleSize s)) (drop offset data)\<rparr> # rest))
      else Inl SliceBounds)"

definition TrunGetFullSamples :: "TrunBox \<Rightarrow> u32 \<Rightarrow> u64 \<Rightarrow> MdatBox \<Rightarrow> error + FullSample list" where
  "TrunGetFullSamples trun offsetInMdat baseTime mdat =
     walkSamples (MdatBox.Data mdat) (Samples trun) (unat offsetInMdat) baseTime"

subsection \<open>The fragment\<close>

text \<open>
  A value of the interface \<open>Box\<close> among the children of a fragment is a dynamic type
  and a pointer. \<open>PrftRef\<close>, \<open>MoofRef\<close> and \<open>MdatRef\<close> are pointers to a \<open>PrftBox\<close>, a
  \<open>MoofBox\<close> and an \<open>MdatBox\<close>; \<open>OtherRef\<close> is a pointer to a box of any other
  type, with what its \<open>Type()\<close> returns.
\<close>

datatype BoxRef = PrftRef ptr | MoofRef ptr | MdatRef ptr | OtherRef string addr

fun TypeOf :: "BoxRef \<Rightarrow> string" where
  "TypeOf (PrftRef _) = ''prft''"
| "TypeOf (MoofRef _) = ''moof''"
| "TypeOf (MdatRef _) = ''mdat''"
| "TypeOf (OtherRef name _) = name"

record Fragment =
  Prft :: ptr
  Moof :: ptr
  Mdat :: ptr
  Children :: "BoxRef list"

definition NewFragment :: Fragment where
  "NewFragment = \<lparr>Prft = None, Moof = None, Mdat = None, Children = []\<rparr>"

text \<open>
  \<open>AddChild\<close>: the switch on \<open>b.Type()\<close> with its type assertions \<open>b.(*PrftBox)\<close>,
  \<open>b.(*MoofBox)\<close>, \<open>b.(*MdatBox)\<close>, which panic on a box of another dynamic type, then
  the append.
\<close>

definition AddChild :: "Fragment \<Rightarrow> BoxRef \<Rightarrow> error + Fragment" where
  "AddChild f b =
     bindE
       (if TypeOf b = ''prft'' then
          (case b of PrftRef p \<Rightarrow> Inr (f\<lparr>Prft := p\<rparr>) | _ \<Rightarrow> Inl TypeAssertion)
        else if TypeOf b = ''moof'' then
          (case b of MoofRef p \<Rightarrow> Inr (f\<lparr>Moof := p\<rparr>) | _ \<Rightarrow> Inl TypeAssertion)
        else if TypeOf b = ''mdat'' then
          (case b of MdatRef p \<Rightarrow> Inr (f\<lparr>Mdat := p\<rparr>) | _ \<Rightarrow> Inl TypeAssertion)
        else Inr f)
       (\<lambda>f. Inr (f\<lparr>Children := Children f @ [b]\<rparr>))"

text \<open>A sequence of \<open>AddChild\<close> calls on one fragment.\<close>

fun AddChildren :: "Fragment \<Rightarrow> BoxRef list \<Rightarrow> error + Fragment" where
  "AddChildren f [] = Inr f"
| "AddChildren f (b # bs) = bindE (AddChild f b) (\<lambda>f. AddChildren f bs)"

text \<open>
  \<open>CreateFragment\<close> and \<open>CreateMultiTrackFragment\<close>. The errors of the container
  \<open>AddChild\<close> calls are dropped (\<open>_ = moof.AddChild(mfhd)\<close>), so a failed call leaves the
  store as it was.
\<close>

definition ignoreErr :: "heap \<Rightarrow> error + heap \<Rightarrow> heap" where
  "ignoreErr h r = (case r of Inl e \<Rightarrow> h | Inr h' \<Rightarrow> h')"

definition addTrack :: "heap \<Rightarrow> ptr \<Rightarrow> u32 \<Rightarrow> heap" where
  "addTrack h moof trackID =
     (let (traf, h) = newTraf h;
          h = ignoreErr h (MoofAddTraf h moof traf);
          (tfhd, h) = CreateTfhd h trackID;
          h = ignoreErr h (TrafAddTfhd h traf tfhd);
          (tfdt, h) = newTfdt h;
          h = ignoreErr h (TrafAddTfdt h traf tfdt);
          (trun, h) = CreateTrun h;
          h = ignoreErr h (TrafAddTrun h traf trun)
      in h)"

definition CreateFragment :: "heap \<Rightarrow> u32 \<Rightarrow> u32 \<Rightarrow> error + (Fragment \<times> heap)" where
  "CreateFragment h seqNumber trackID =
     (let f = NewFragment;
          (moof, h) = newMoof h
      in bindE (AddChild f (MoofRef moof)) (\<lambda>f.
         let (mfhd, h) = CreateMfhd h seqNumber;
             h = ignoreErr h (MoofAddMfhd h moof mfhd);
             h = addTrack h moof trackID;
             (mdat, h) = newMdat h
         in bindE (AddChild f (MdatRef mdat)) (\<lambda>f. Inr (f, h))))"

definition CreateMultiTrackFragment :: "heap \<Rightarrow> u32 \<Rightarrow> u32 list \<Rightarrow> error + (Fragment \<times> heap)" where
  "CreateMultiTrackFragment h seqNumber trackIDs =
     (let f = NewFragment;
          (moof, h) = newMoof h
      in bindE (AddChild f (MoofRef moof)) (\<lambda>f.
         let (mfhd, h) = CreateMfhd h seqNumber;
             h = ignoreErr h (MoofAddMfhd h moof mfhd);
             h = fold (\<lambda>trackID h. addTrack h moof trackID) trackIDs h;
             (mdat, h) = newMdat h
         in bindE (AddChild f (MdatRef mdat)) (\<lambda>f. Inr (f, h))))"

text \<open>
  \<open>GetFullSamples\<close>. \<open>findTraf\<close> is the loop over \<open>moof.Trafs\<close> with its flag
  \<open>foundTrak\<close>: it yields the \<open>traf\<close> at the \<open>break\<close>, or nothing when the loop runs
  out. \<open>baseOffset\<close> is the computation of the variable of that name in the loop over
  the runs, \<open>trunsLoop\<close> that loop with its two variables \<open>baseTime\<close> and \<open>samples\<close>,
  and \<open>trafSamples\<close> the part of the function from \<open>tfhd := traf.Tfhd\<close> on.
\<close>

fun findTraf :: "heap \<Rightarrow> ptr list \<Rightarrow> u32 \<Rightarrow> error + ptr option" where
  "findTraf h [] trackID = Inr None"
| "findTraf h (traf # rest) trackID =
     bindE (deref (trafs h) traf) (\<lambda>t.
     bindE (deref (tfhds h) (Tfhd t)) (\<lambda>tfhd.
     if TfhdBox.TrackID tfhd = trackID then Inr (Some traf) else findTraf h rest trackID))"

definition baseOffset :: "TfhdBox \<Rightarrow> u64 \<Rightarrow> TrunBox \<Rightarrow> u64" where
  "baseOffset tfhd moofStartPos trun =
     (let baseOffset = 0;
          baseOffset = (if HasBaseDataOffset tfhd then BaseDataOffset tfhd
                        else if DefaultBaseIfMoof tfhd then moofStartPos
                        else baseOffset);
          baseOffset = (if HasDataOffset trun then scast (DataOffset trun) + baseOffset
                        else baseOffset)
      in baseOffset)"

fun trunsLoop ::
  "heap \<Rightarrow> ptr \<Rightarrow> TrexBox option \<Rightarrow> u64 \<Rightarrow> ptr \<Rightarrow> ptr list \<Rightarrow> u64 \<Rightarrow> FullSample list \<Rightarrow>
   error + (u64 \<times> FullSample list)" where
  "trunsLoop h tfhd trex moofStartPos mdat [] baseTime samples = Inr (baseTime, samples)"
| "trunsLoop h tfhd trex moofStartPos mdat (trun # rest) baseTime samples =
     bindE (deref (truns h) trun) (\<lambda>tr.
     bindE (deref (tfhds h) tfhd) (\<lambda>th.
     let (tr, totalDur) = AddSampleDefaultValues tr th trex;
         baseOffset = baseOffset th moofStartPos tr
     in bindE (deref (mdats h) mdat) (\<lambda>md.
     let mdatDataLength = (of_nat (length (MdatBox.Data md)) :: u64);
         offsetInMdat = baseOffset - PayloadAbsoluteOffset md
     in if offsetInMdat > mdatDataLength then Inl OffsetBeyondSize
        else bindE (TrunGetFullSamples tr (ucast offsetInMdat) baseTime md) (\<lambda>ss.
             trunsLoop h tfhd trex moofStartPos mdat rest (baseTime + totalDur) (samples @ ss)))))"

definition trafSamples :: "heap \<Rightarrow> ptr \<Rightarrow> ptr \<Rightarrow> ptr \<Rightarrow> TrexBox option \<Rightarrow> error + FullSample list" where
  "trafSamples h moof mdat traf trex =
     bindE (deref (trafs h) traf) (\<lambda>t.
     let tfhd = Tfhd t
     in bindE (deref (tfdts h) (Tfdt t)) (\<lambda>tfdt.
     let baseTime = BaseMediaDecodeTime tfdt
     in bindE (deref (moofs h) moof) (\<lambda>m.
     let moofStartPos = StartPos m
     in bindE (trunsLoop h tfhd trex moofStartPos mdat (Truns t) baseTime [])
          (\<lambda>(baseTime, samples). Inr samples))))"

definition GetFullSamples :: "heap \<Rightarrow> Fragment \<Rightarrow> TrexBox option \<Rightarrow> error + FullSample list" where
  "GetFullSamples h f trex =
     (let moof = Moof f;
          mdat = Mdat f
      in case trex of
           Some tx \<Rightarrow>
             bindE (deref (moofs h) moof) (\<lambda>m.
             bindE (findTraf h (Trafs m) (TrexBox.TrackID tx)) (\<lambda>found.
             case found of
               None \<Rightarrow> Inr []
             | Some traf \<Rightarrow> trafSamples h moof mdat traf trex))
         | None \<Rightarrow>
             bindE (deref (moofs h) moof) (\<lambda>m.
             trafSamples h moof mdat (Traf m) trex))"

text \<open>\<open>AddFullSample\<close>; the store it returns is the fragment after the call.\<close>

definition AddFullSample :: "heap \<Rightarrow> Fragment \<Rightarrow> FullSample \<Rightarrow> error + heap" where
  "AddFullSample h f s =
     bindE (deref (moofs h) (Moof f)) (\<lambda>m.
     bindE (deref (trafs h) (Traf m)) (\<lambda>t.
     let trun = Trun t
     in bindE (deref (truns h) trun) (\<lambda>tr.
     bindE (if SampleCount tr = 0
            then (let tfdt = Tfdt t in SetBaseMediaDecodeTime h tfdt (DecodeTime s))
            else Inr h) (\<lambda>h.
     bindE (AddSample h trun (Sample.truncate s)) (\<lambda>h.
     let mdat = Mdat f
     in AddSampleData h mdat (FullSample.Data s))))))"

text \<open>
  \<open>AddFullSampleToTrack\<close>. The loop assigns the range variable to the \<open>traf\<close> declared
  before it (\<open>for _, traf = range\<close>), so \<open>trackLoop\<close> carries that variable and yields
  its value at the end of the loop. Nothing is added after the loop
  (\<open>// TODO. Add samples and create truns if necessary\<close>), so the store is returned as
  it was.
\<close>

fun trackLoop :: "heap \<Rightarrow> ptr list \<Rightarrow> u32 \<Rightarrow> ptr \<Rightarrow> error + ptr" where
  "trackLoop h [] trackID traf = Inr traf"
| "trackLoop h (next # rest) trackID traf =
     (let traf = next
      in bindE (deref (trafs h) traf) (\<lambda>t.
         bindE (deref (tfhds h) (Tfhd t)) (\<lambda>tfhd.
         if TfhdBox.TrackID tfhd = trackID then Inr traf else trackLoop h rest trackID traf)))"

definition AddFullSampleToTrack :: "heap \<Rightarrow> Fragment \<Rightarrow> FullSample \<Rightarrow> u32 \<Rightarrow> error + heap" where
  "AddFullSampleToTrack h f s trackID =
     bindE (deref (moofs h) (Moof f)) (\<lambda>m.
     bindE (trackLoop h (Trafs m) trackID None) (\<lambda>traf.
     if traf = None then Inl (NoTrack trackID) else Inr h))"

text \<open>
  The base offset of a run in the words of the spec, in the integers: start with \<open>0\<close>;
  if the \<open>tfhd\<close> has a base data offset, set to it; else if it has default-base-is-moof,
  set to the start of the \<open>moof\<close>; if the run has a data offset, add it, signed.
\<close>

definition specBaseOffset :: "TfhdBox \<Rightarrow> u64 \<Rightarrow> TrunBox \<Rightarrow> int" where
  "specBaseOffset tfhd moofStartPos trun =
     (if HasBaseDataOffset tfhd then uint (BaseDataOffset tfhd)
      else if DefaultBaseIfMoof tfhd then uint moofStartPos
      else 0)
     + (if HasDataOffset trun then sint (DataOffset trun) else 0)"

text \<open>
  A fragment is laid out for one track when the accessors that \<open>AddFullSample\<close>
  follows are set and point to boxes in the store.
\<close>

definition singleTrack :: "heap \<Rightarrow> Fragment \<Rightarrow> addr \<Rightarrow> addr \<Rightarrow> addr \<Rightarrow> bool" where
  "singleTrack h f trun tfdt mdat =
     (case deref (moofs h) (Moof f) of
        Inl e \<Rightarrow> False
      | Inr m \<Rightarrow>
          (case deref (trafs h) (Traf m) of
             Inl e \<Rightarrow> False
           | Inr t \<Rightarrow>
               Trun t = Some trun \<and> truns h trun \<noteq> None \<and>
               Tfdt t = Some tfdt \<and> tfdts h tfdt \<noteq> None \<and>
               Mdat f = Some mdat \<and> mdats h mdat \<noteq> None))"

text \<open>
  The track IDs of the \<open>traf\<close>s of a \<open>moof\<close>, when every pointer on the way is set:
  \<open>None\<close> where one is nil.
\<close>

fun trafTrackIDs :: "heap \<Rightarrow> ptr list \<Rightarrow> u32 list option" where
  "trafTrackIDs h [] = Some []"
| "trafTrackIDs h (traf # rest) =
     (case deref (trafs h) traf of
        Inl e \<Rightarrow> None
      | Inr t \<Rightarrow>
          (case deref (tfhds h) (Tfhd t) of
             Inl e \<Rightarrow> None
           | Inr tfhd \<Rightarrow>
               (case trafTrackIDs h rest of
                  None \<Rightarrow> None
                | Some ids \<Rightarrow> Some (TfhdBox.TrackID tfhd # ids))))"

text \<open>
  Whether every box whose \<open>Type()\<close> is \<open>prft\<close>, \<open>moof\<close> or \<open>mdat\<close> has the dynamic type
  that \<open>AddChild\<close> asserts, and whether each accessor of a fragment is nil or among its
  children.
\<close>

fun asserted :: "BoxRef \<Rightarrow> bool" where
  "asserted (OtherRef name _) = (name \<noteq> ''prft'' \<and> name \<noteq> ''moof'' \<and> name \<noteq> ''mdat'')"
| "asserted _ = True"

definition accessorsAmongChildren :: "Fragment \<Rightarrow> bool" where
  "accessorsAmongChildren f =
     ((Prft f = None \<or> PrftRef (Prft f) \<in> set (Children f)) \<and>
      (Moof f = None \<or> MoofRef (Moof f) \<in> set (Children f)) \<and>
      (Mdat f = None \<or> MdatRef (Mdat f) \<in> set (Children f)))"

text \<open>
  The accessor \<open>Traf\<close> of a \<open>moof\<close> agrees with its list \<open>Trafs\<close> when it is nil for
  an empty list and otherwise the first element of the list, which is not nil.
\<close>

definition trafIsFirst :: "MoofBox \<Rightarrow> bool" where
  "trafIsFirst m =
     (case Trafs m of
        [] \<Rightarrow> Traf m = None
      | traf # rest \<Rightarrow> traf \<noteq> None \<and> Traf m = traf)"

subsection \<open>Example values\<close>

text \<open>
  The fragment and the store that \<open>CreateFragment\<close> makes from the empty store for
  sequence number \<open>7\<close> and track \<open>1\<close>, the same store with the run's data offset at
  \<open>100\<close>, the fragment and store of \<open>CreateMultiTrackFragment\<close> for the tracks \<open>1\<close> and
  \<open>2\<close>, that store after \<open>AddFullSample\<close> of the sample of the spec's single-sample
  scenario, and a \<open>trex\<close> for a track \<open>3\<close>.
\<close>

definition frag1 :: Fragment where
  "frag1 = \<lparr>Prft = None, Moof = Some 0, Mdat = Some 6,
             Children = [MoofRef (Some 0), MdatRef (Some 6)]\<rparr>"

definition trun0 :: TrunBox where
  "trun0 = \<lparr>SampleCount = 0, HasDataOffset = True, DataOffset = 0, FirstSampleFlags = None,
             HasSampleDuration = True, HasSampleSize = True, HasSampleFlags = True,
             HasSampleCTO = True, Samples = []\<rparr>"

definition tfhdOf :: "u32 \<Rightarrow> TfhdBox" where
  "tfhdOf trackID =
     \<lparr>TfhdBox.TrackID = trackID, HasBaseDataOffset = False, DefaultBaseIfMoof = True,
      BaseDataOffset = 0, DefaultSampleDuration = None, DefaultSampleSize = None,
      DefaultSampleFlags = None\<rparr>"

definition heap1 :: heap where
  "heap1 =
     \<lparr>moofs = [0 \<mapsto> \<lparr>Mfhd = Some 1, Traf = Some 2, Trafs = [Some 2], StartPos = 0\<rparr>],
      mfhds = [1 \<mapsto> \<lparr>SequenceNumber = 7\<rparr>],
      trafs = [2 \<mapsto> \<lparr>Tfhd = Some 3, Tfdt = Some 4, Trun = Some 5, Truns = [Some 5]\<rparr>],
      tfhds = [3 \<mapsto> tfhdOf 1],
      tfdts = [4 \<mapsto> \<lparr>BaseMediaDecodeTime = 0\<rparr>],
      truns = [5 \<mapsto> trun0],
      mdats = [6 \<mapsto> \<lparr>PayloadAbsoluteOffset = 0, Data = []\<rparr>],
      fresh = 7\<rparr>"

definition heapFar :: heap where
  "heapFar = heap1\<lparr>truns := [5 \<mapsto> trun0\<lparr>DataOffset := 100\<rparr>]\<rparr>"

definition frag2 :: Fragment where
  "frag2 = \<lparr>Prft = None, Moof = Some 0, Mdat = Some 10,
             Children = [MoofRef (Some 0), MdatRef (Some 10)]\<rparr>"

definition heap2 :: heap where
  "heap2 =
     \<lparr>moofs = [0 \<mapsto> \<lparr>Mfhd = Some 1, Traf = Some 2, Trafs = [Some 2, Some 6], StartPos = 0\<rparr>],
      mfhds = [1 \<mapsto> \<lparr>SequenceNumber = 7\<rparr>],
      trafs = [2 \<mapsto> \<lparr>Tfhd = Some 3, Tfdt = Some 4, Trun = Some 5, Truns = [Some 5]\<rparr>,
               6 \<mapsto> \<lparr>Tfhd = Some 7, Tfdt = Some 8, Trun = Some 9, Truns = [Some 9]\<rparr>],
      tfhds = [3 \<mapsto> tfhdOf 1, 7 \<mapsto> tfhdOf 2],
      tfdts = [4 \<mapsto> \<lparr>BaseMediaDecodeTime = 0\<rparr>, 8 \<mapsto> \<lparr>BaseMediaDecodeTime = 0\<rparr>],
      truns = [5 \<mapsto> trun0, 9 \<mapsto> trun0],
      mdats = [10 \<mapsto> \<lparr>PayloadAbsoluteOffset = 0, Data = []\<rparr>],
      fresh = 11\<rparr>"

definition sample1 :: FullSample where
  "sample1 = \<lparr>Flags = 0x02000000, Dur = 0, SampleSize = 4, Cto = 0, DecodeTime = 1000,
               FullSample.Data = [0xDE, 0xAD, 0xBE, 0xEF]\<rparr>"

definition heap3 :: heap where
  "heap3 =
     heap2\<lparr>tfdts := (tfdts heap2)(4 \<mapsto> \<lparr>BaseMediaDecodeTime = 1000\<rparr>),
           truns := (truns heap2)(5 \<mapsto>
             trun0\<lparr>Samples := [Sample.truncate sample1], SampleCount := 1\<rparr>),
           mdats := [10 \<mapsto> \<lparr>PayloadAbsoluteOffset = 0, Data = [0xDE, 0xAD, 0xBE, 0xEF]\<rparr>]\<rparr>"

definition trex3 :: TrexBox where
  "trex3 = \<lparr>TrexBox.TrackID = 3, DefaultSampleDuration = 0, DefaultSampleSize = 0,
             DefaultSampleFlags = 0\<rparr>"

section \<open>Properties of the box codec\<close>

subsection \<open>Sequencing, byte order and sizes\<close>

lemma bindE_simps [simp]: "bindE (Inl e) f = Inl e" "bindE (Inr x) f = f x"
  by (simp_all add: bindE_def)

lemma PutUint32_Uint32: "PutUint32 (Uint32 [a, b, c, d]) = [a, b, c, d]"
  unfolding PutUint32_def Uint32_def
  apply simp
  apply (intro conjI bit_word_eqI)
  apply (auto simp: bit_simps dest: bit_imp_le_length)
  done

lemma flags_mask: "flagsMask = (mask 24 :: u32)"
  by (simp add: mask_eq_exp_minus_1)

lemma version_and_flags:
  "push_bit 24 (ucast (ucast (drop_bit 24 w) :: byte)) + (w AND flagsMask) = (w :: u32)"
proof -
  have disj: "push_bit 24 (ucast (ucast (drop_bit 24 w) :: byte)) AND (w AND mask 24) = (0 :: u32)"
    by (rule bit_word_eqI) (auto simp: bit_simps)
  have "push_bit 24 (ucast (ucast (drop_bit 24 w) :: byte)) OR (w AND mask 24) = w"
    apply (rule bit_word_eqI)
    subgoal for n by (cases "n < 24") (auto simp: bit_simps)
    done
  then show ?thesis
    using disjunctive_add_eq_or [OF disj] by (simp only: flags_mask)
qed

lemma length_PutUint32 [simp]: "length (PutUint32 v) = 4"
  by (simp add: PutUint32_def)

lemma length_PutUint64 [simp]: "length (PutUint64 v) = 8"
  by (simp add: PutUint64_def)

lemma length_PutUint16 [simp]: "length (PutUint16 v) = 2"
  by (simp add: PutUint16_def)

lemma Write_Write: "bindE (Write w p) (\<lambda>w. Write w q) = Write w (p @ q)"
  by (auto simp: Write_def)

lemma small_size: "n < 2 ^ 32 \<Longrightarrow> \<not> (of_nat n :: u64) > 0xFFFFFFFF"
  by (simp add: word_less_nat_alt unat_of_nat take_bit_nat_eq_self) 

lemma ucast_of_nat_64_32: "(ucast (of_nat n :: u64) :: u32) = of_nat n"
  by (rule bit_word_eqI) (auto simp: bit_simps)

lemma header_small:
  "Size b = of_nat n \<Longrightarrow> n < 2 ^ 32 \<Longrightarrow>
   EncodeHeader b w = Write w (PutUint32 (of_nat n) @ map of_char (Type b))"
  by (simp add: EncodeHeader_def small_size ucast_of_nat_64_32 del: of_nat_add)


lemma Write_out: "Write w p = Inr w' \<Longrightarrow> out w' = out w @ p"
  by (auto simp: Write_def split: if_splits)

lemma bindE_Inr_iff: "bindE m f = Inr y \<longleftrightarrow> (\<exists>x. m = Inr x \<and> f x = Inr y)"
  by (cases m) simp_all

lemma wvtt_prefix:
  assumes "8 \<le> n"
  shows "bindE (WriteZeroBytes (NewSliceWriter (replicate n 0)) 6) (\<lambda>sw.
           bindE (WriteUint16 sw v) (\<lambda>sw. F (take (pos sw) (buf sw))))
         = F (replicate 6 0 @ PutUint16 v)"
  using assms
  by (simp add: WriteZeroBytes_def WriteUint16_def NewSliceWriter_def put_def)

lemma nmhd_buf:
  "bindE (WriteUint32 (NewSliceWriter (replicate 4 0)) v) (\<lambda>sw. F (buf sw)) = F (PutUint32 v)"
  by (simp add: WriteUint32_def NewSliceWriter_def put_def)

lemma fold_Size:
  "fold (\<lambda>child total. total + Size child) cs a = a + sum_list (map Size cs)"
  by (induction cs arbitrary: a) (simp_all add: ac_simps)

lemma containerSize_sum: "containerSize xs = 8 + sum_list xs"
proof -
  have "fold (\<lambda>s total. total + s) xs a = a + sum_list xs" for a :: u64
    by (induction xs arbitrary: a) (simp_all add: ac_simps)
  then show ?thesis by (simp add: containerSize_def)
qed

lemma sum_list_of_nat:
  "(\<And>c. c \<in> set cs \<Longrightarrow> f c = of_nat (g c)) \<Longrightarrow>
   sum_list (map f cs) = (of_nat (sum_list (map g cs)) :: u64)"
  by (induction cs) simp_all

lemma Size_plainSize: "Size b = of_nat (plainSize b)"
  by (induction b rule: plainSize.induct)
    (simp_all add: fold_Size containerSize_sum sum_list_of_nat)

lemma unat_Size: "plainSize b < 2 ^ 64 \<Longrightarrow> unat (Size b) = plainSize b"
  by (simp add: Size_plainSize unat_of_nat take_bit_nat_eq_self)

lemma makebuf_length:
  assumes "8 \<le> plainSize b" "plainSize b < 2 ^ 64"
  shows "makebuf b = replicate (plainSize b - 8) 0"
proof -
  have "(8 :: u64) \<le> Size b"
    using assms unat_Size [of b] by (simp add: word_le_nat_alt)
  then have "unat (Size b - 8) = unat (Size b) - 8"
    by (simp add: unat_sub)
  then show ?thesis using assms by (simp add: makebuf_def unat_Size)
qed

lemma EncodeHeader_small:
  assumes "plainSize b < 2 ^ 32"
  shows "EncodeHeader b w = Write w (PutUint32 (of_nat (plainSize b)) @ map of_char (Type b))"
  using assms by (rule header_small [OF Size_plainSize])


lemma Encode_Wvtt:
  assumes "plainSize (WvttBox vttC vlab btrt children dri) < 2 ^ 64"
  shows "Encode (WvttBox vttC vlab btrt children dri) w =
     bindE (EncodeHeader (WvttBox vttC vlab btrt children dri) w) (\<lambda>w.
     bindE (Write w (replicate 6 0 @ PutUint16 dri)) (\<lambda>w.
     EncodeChildren children w))"
proof -
  have mk: "makebuf (WvttBox vttC vlab btrt children dri) =
      replicate (8 + sum_list (map plainSize children)) 0"
    using assms by (subst makebuf_length) simp_all
  show ?thesis
    by (simp only: Encode.simps mk)
      (simp add: WriteZeroBytes_def WriteUint16_def NewSliceWriter_def put_def)
qed

lemma Encode_length_both:
  "(plainSize b < 2 ^ 32 \<longrightarrow> externsExact b \<longrightarrow>
      (\<forall>w'. Encode b w = Inr w' \<longrightarrow> length (out w') = length (out w) + plainSize b))"
  "(sum_list (map plainSize cs) < 2 ^ 32 \<longrightarrow> list_all externsExact cs \<longrightarrow>
      (\<forall>w'. EncodeChildren cs w = Inr w' \<longrightarrow>
         length (out w') = length (out w) + sum_list (map plainSize cs)))"
proof (induction b w and cs w rule: Encode_EncodeChildren.induct)
  case (1 version flags w)
  show ?case
    by (auto simp: makebuf_def nmhd_buf EncodeHeader_small bindE_Inr_iff dest!: Write_out)
next
  case (2 vttC vlab btrt children dataReferenceIndex w)
  let ?b = "WvttBox vttC vlab btrt children dataReferenceIndex"
  show ?case
  proof (intro impI allI)
    fix w'
    assume small: "plainSize ?b < 2 ^ 32" and ext: "externsExact ?b"
      and enc: "Encode ?b w = Inr w'"
    from enc obtain w1 w2 where
      h: "EncodeHeader ?b w = Inr w1"
      and p: "Write w1 (replicate 6 0 @ PutUint16 dataReferenceIndex) = Inr w2"
      and c: "EncodeChildren children w2 = Inr w'"
      using small by (subst (asm) Encode_Wvtt) (auto simp: bindE_Inr_iff)
    have l1: "length (out w1) = length (out w) + 8"
      using h small by (auto simp: EncodeHeader_small dest!: Write_out)
    have l2: "length (out w2) = length (out w1) + 8"
      using p by (auto dest!: Write_out)
    have "length (out w') = length (out w2) + sum_list (map plainSize children)"
      using "2.IH" small ext c by simp
    then show "length (out w') = length (out w) + plainSize ?b"
      using l1 l2 by simp
  qed
next
  case (6 vsid iden ctim sttg payl children w)
  let ?b = "VttcBox vsid iden ctim sttg payl children"
  show ?case
  proof (intro impI allI)
    fix w'
    assume small: "plainSize ?b < 2 ^ 32" and ext: "externsExact ?b"
      and enc: "Encode ?b w = Inr w'"
    from enc obtain w1 where
      h: "EncodeHeader ?b w = Inr w1"
      and c: "EncodeChildren children w1 = Inr w'"
      by (auto simp: bindE_Inr_iff)
    have l1: "length (out w1) = length (out w) + 8"
      using h small by (auto simp: EncodeHeader_small dest!: Write_out)
    have "length (out w') = length (out w1) + sum_list (map plainSize children)"
      using "6.IH" small ext c by simp
    then show "length (out w') = length (out w) + plainSize ?b"
      using l1 by simp
  qed
next
  case (15 child children w)
  show ?case
  proof (intro impI allI)
    fix w'
    assume small: "sum_list (map plainSize (child # children)) < 2 ^ 32"
      and ext: "list_all externsExact (child # children)"
      and enc: "EncodeChildren (child # children) w = Inr w'"
    from enc obtain w1 where a: "Encode child w = Inr w1" and b: "EncodeChildren children w1 = Inr w'"
      by (auto simp: bindE_Inr_iff)
    have "length (out w1) = length (out w) + plainSize child"
      using "15.IH"(1) small ext a by simp
    moreover have "length (out w') = length (out w1) + sum_list (map plainSize children)"
      using "15.IH"(2) small ext b by simp
    ultimately show "length (out w') = length (out w) + sum_list (map plainSize (child # children))"
      by simp
  qed
qed (auto simp: EncodeHeader_small bindE_Inr_iff unat_of_nat take_bit_nat_eq_self dest!: Write_out)

lemmas eval_defs = bindE_def EncodeHeader_def Write_def makebuf_def WriteUint32_def
  WriteUint16_def WriteZeroBytes_def NewSliceWriter_def put_def PutUint32_def PutUint16_def
  PutUint64_def containerSize_def

lemma replicate_6: "replicate 6 x = [x, x, x, x, x, x]"
  by (simp add: eval_nat_numeral)

lemma Encode_text:
  assumes "plainSize b < 2 ^ 32"
  shows "bindE (EncodeHeader b w) (\<lambda>w. Write w p) =
         Write w (PutUint32 (of_nat (plainSize b)) @ map of_char (Type b) @ p)"
  using assms by (simp add: EncodeHeader_small Write_Write)

lemma length_4: "length xs = 4 \<Longrightarrow> \<exists>a b c d. xs = [a, b, c, d]"
  by (cases xs; simp; (cases "tl xs"; simp; (cases "tl (tl xs)"; simp; cases "tl (tl (tl xs))"; simp)))

lemma Encode_Nmhd_roundtrip:
  "Encode (NmhdBox (ucast (drop_bit 24 (Uint32 [a, b, c, d]))) (Uint32 [a, b, c, d] AND flagsMask)) w
   = Write w (boxBytes ''nmhd'' [a, b, c, d])"
proof -
  let ?v = "Uint32 [a, b, c, d]"
  let ?b = "NmhdBox (ucast (drop_bit 24 ?v)) (?v AND flagsMask)"
  have mk: "makebuf ?b = replicate 4 0"
    by (simp add: makebuf_def)
  have "Encode ?b w = bindE (EncodeHeader ?b w) (\<lambda>w. Write w (PutUint32 ?v))"
    by (simp only: Encode.simps mk nmhd_buf version_and_flags)
  also have "\<dots> = Write w (boxBytes ''nmhd'' [a, b, c, d])"
    by (subst Encode_text) (simp_all add: boxBytes_def PutUint32_Uint32)
  finally show ?thesis .
qed

subsection \<open>Round trip of the decoders\<close>

text \<open>
  C1, as the spec states it, fails: \<open>DecodeNmhd\<close> reads the first four bytes of the
  payload and drops the rest, so the \<open>nmhd\<close> box with the five payload bytes
  \<open>00 00 00 00 FF\<close> (13 bytes on the wire) decodes to the box with version and flags
  zero, whose encoding has 12 bytes.
\<close>

theorem roundtrip_counterexample:
  "DecodeNmhd (headerOf ''nmhd'' [0, 0, 0, 0, 255]) 0 (Reader [0, 0, 0, 0, 255] (replicate 507 0)) =
     Inr (NmhdBox 0 0) \<and>
   Encode (NmhdBox 0 0) \<lparr>out = [], space = 100\<rparr> =
     Inr \<lparr>out = [0, 0, 0, 12, 110, 109, 104, 100, 0, 0, 0, 0], space = 88\<rparr> \<and>
   boxBytes ''nmhd'' [0, 0, 0, 0, 255] = [0, 0, 0, 13, 110, 109, 104, 100, 0, 0, 0, 0, 255]"
  by (simp add: DecodeNmhd_def ReadUint32_def NewSliceReader_def Uint32_def eval_defs boxBytes_def)

text \<open>
  C1 (amended): for each decoder of \<open>wvtt.go\<close> and \<open>nmhd\<close> that reads its payload itself
  (\<open>nmhd\<close>, \<open>vttC\<close>, \<open>vlab\<close>, \<open>vtte\<close>, \<open>vsid\<close>, \<open>ctim\<close>, \<open>iden\<close>, \<open>sttg\<close>, \<open>payl\<close>,
  \<open>vtta\<close>), every box on the wire with an 8-byte header, a size below \<open>2^32\<close> and a
  payload of exactly the length the decoder reads that decodes to a box \<open>b\<close> is
  reproduced by the encoder: \<open>Encode b\<close> writes the bytes of the box, in one piece or
  not at all.
\<close>

theorem roundtrip_leaf:
  assumes reg: "(typ, d) \<in> set leafDecoders"
    and fit: "payloadRead typ (length payload)"
    and small: "boxHeaderSize + length payload < 2 ^ 32"
    and dec: "d (headerOf typ payload) startPos (Reader payload sp) = Inr b"
  shows "Encode b w = Write w (boxBytes typ payload)"
proof -
  have "(typ = ''nmhd'' \<and> d = DecodeNmhd) \<or> (typ = ''vttC'' \<and> d = DecodeVttC) \<or>
        (typ = ''vlab'' \<and> d = DecodeVlab) \<or> (typ = ''vtte'' \<and> d = DecodeVtte) \<or>
        (typ = ''vsid'' \<and> d = DecodeVsid) \<or> (typ = ''ctim'' \<and> d = DecodeCtim) \<or>
        (typ = ''iden'' \<and> d = DecodeIden) \<or> (typ = ''sttg'' \<and> d = DecodeSttg) \<or>
        (typ = ''payl'' \<and> d = DecodePayl) \<or> (typ = ''vtta'' \<and> d = DecodeVtta)"
    using reg by (simp add: leafDecoders_def)
  then consider (nmhd) "typ = ''nmhd''" "d = DecodeNmhd"
    | (vttC) "typ = ''vttC''" "d = DecodeVttC"
    | (vlab) "typ = ''vlab''" "d = DecodeVlab"
    | (vtte) "typ = ''vtte''" "d = DecodeVtte"
    | (vsid) "typ = ''vsid''" "d = DecodeVsid"
    | (ctim) "typ = ''ctim''" "d = DecodeCtim"
    | (iden) "typ = ''iden''" "d = DecodeIden"
    | (sttg) "typ = ''sttg''" "d = DecodeSttg"
    | (payl) "typ = ''payl''" "d = DecodePayl"
    | (vtta) "typ = ''vtta''" "d = DecodeVtta"
    by (elim disjE conjE)
  then show ?thesis
  proof cases
    case nmhd
    with fit obtain a b' c d' where p: "payload = [a, b', c, d']"
      using length_4 [of payload] by (auto simp: payloadRead_def)
    with dec nmhd have "b = NmhdBox (ucast (drop_bit 24 (Uint32 [a, b', c, d'])))
        (Uint32 [a, b', c, d'] AND flagsMask)"
      by (auto simp: DecodeNmhd_def ReadUint32_def NewSliceReader_def)
    then show ?thesis using nmhd p by (simp only: Encode_Nmhd_roundtrip)
  next
    case vsid
    with fit obtain a b' c d' where p: "payload = [a, b', c, d']"
      using length_4 [of payload] by (auto simp: payloadRead_def)
    with dec vsid have "b = VsidBox (Uint32 [a, b', c, d'])"
      by (auto simp: DecodeVsid_def reslice_def cap_def)
    then show ?thesis using vsid p
      by (simp add: Encode_text boxBytes_def PutUint32_Uint32)
  next
    case vtte
    with fit have "payload = []" by (simp add: payloadRead_def)
    moreover from dec vtte have "b = VtteBox" by (simp add: DecodeVtte_def)
    ultimately show ?thesis using vtte
      by (simp add: EncodeHeader_small boxBytes_def)
  next
    case vttC
    with dec have "b = VttCBox payload" by (auto simp: DecodeVttC_def)
    then show ?thesis using vttC small by (simp add: Encode_text boxBytes_def)
  next
    case vlab
    with dec have "b = VlabBox payload" by (auto simp: DecodeVlab_def)
    then show ?thesis using vlab small by (simp add: Encode_text boxBytes_def)
  next
    case ctim
    with dec have "b = CtimBox payload" by (auto simp: DecodeCtim_def)
    then show ?thesis using ctim small by (simp add: Encode_text boxBytes_def)
  next
    case iden
    with dec have "b = IdenBox payload" by (auto simp: DecodeIden_def)
    then show ?thesis using iden small by (simp add: Encode_text boxBytes_def)
  next
    case sttg
    with dec have "b = SttgBox payload" by (auto simp: DecodeSttg_def)
    then show ?thesis using sttg small by (simp add: Encode_text boxBytes_def)
  next
    case payl
    with dec have "b = PaylBox payload" by (auto simp: DecodePayl_def)
    then show ?thesis using payl small by (simp add: Encode_text boxBytes_def)
  next
    case vtta
    with dec have "b = VttaBox payload" by (auto simp: DecodeVtta_def)
    then show ?thesis using vtta small by (simp add: Encode_text boxBytes_def)
  qed
qed

theorem roundtrip_leaf_witness:
  "(''nmhd'', DecodeNmhd) \<in> set leafDecoders \<and>
   payloadRead ''nmhd'' (length [1, 0, 0, 2 :: byte]) \<and>
   boxHeaderSize + length [1, 0, 0, 2 :: byte] < 2 ^ 32 \<and>
   DecodeNmhd (headerOf ''nmhd'' [1, 0, 0, 2]) 0 (Reader [1, 0, 0, 2] (replicate 508 0)) =
     Inr (NmhdBox 1 2) \<and>
   Encode (NmhdBox 1 2) \<lparr>out = [], space = 100\<rparr> =
     Inr \<lparr>out = [0, 0, 0, 12, 110, 109, 104, 100, 1, 0, 0, 2], space = 88\<rparr>"
proof -
  have h1: "(''nmhd'', DecodeNmhd) \<in> set leafDecoders"
    by (simp add: leafDecoders_def)
  have h2: "payloadRead ''nmhd'' (length [1, 0, 0, 2 :: byte])"
    by (simp add: payloadRead_def)
  have h3: "boxHeaderSize + length [1, 0, 0, 2 :: byte] < 2 ^ 32"
    by simp
  have h4: "DecodeNmhd (headerOf ''nmhd'' [1, 0, 0, 2]) 0 (Reader [1, 0, 0, 2] (replicate 508 0)) =
     Inr (NmhdBox 1 2)"
    by (simp add: DecodeNmhd_def ReadUint32_def NewSliceReader_def Uint32_def)
  from roundtrip_leaf [OF h1 h2 h3 h4, of "\<lparr>out = [], space = 100\<rparr>"] h1 h2 h3 h4
  show ?thesis
    by (simp add: Write_def boxBytes_def PutUint32_def)
qed

subsection \<open>Size agreement\<close>

lemma Encode_writes_Size_below_largesize:
  assumes "plainSize b < 2 ^ 32" and "externsExact b" and "Encode b w = Inr w'"
  shows "length (out w') = length (out w) + unat (Size b)"
  using Encode_length_both(1) [of b w] assms unat_Size [of b] by simp

lemma Encode_Wvtt_example:
  "Encode (WvttBox None None None [VttCBox [1, 2, 3], VtteBox] 1) \<lparr>out = [], space = 100\<rparr> =
     Inr \<lparr>out = [0, 0, 0, 35, 119, 118, 116, 116, 0, 0, 0, 0, 0, 0, 0, 1, 0, 0, 0,
                11, 118, 116, 116, 67, 1, 2, 3, 0, 0, 0, 8, 118, 116, 116, 101],
          space = 65\<rparr> \<and>
   unat (Size (WvttBox None None None [VttCBox [1, 2, 3], VtteBox] 1)) = 35"
  by (simp add: eval_defs replicate_6)


subsection \<open>A short payload for \<open>DecodeVsid\<close>\<close>

text \<open>
  C9, as stated, fails: the slice expression \<open>data[0:4]\<close> is checked against the
  capacity of \<open>data\<close>, and \<open>ioutil.ReadAll\<close> returns a slice of its buffer, whose
  capacity is above the number of bytes read. With an empty payload in a buffer of 512
  zero bytes \<open>DecodeVsid\<close> returns a box with source ID \<open>0\<close>.
\<close>

theorem DecodeVsid_counterexample:
  "length ([] :: byte list) < 4 \<and>
   DecodeVsid (headerOf ''vsid'' []) 0 (Reader [] (replicate 512 0)) = Inr (VsidBox 0)"
  by (simp add: DecodeVsid_def reslice_def cap_def Uint32_def)

text \<open>
  C9 (amended): for every payload shorter than 4 bytes \<open>DecodeVsid\<close> returns no error
  value: it panics with a slice out of bounds when the capacity of the slice read is
  below 4, and otherwise returns a \<open>VsidBox\<close> whose source ID is the big-endian value
  of the first four bytes of the buffer.
\<close>

theorem DecodeVsid_short:
  assumes "length payload < 4"
  shows "DecodeVsid hdr startPos (Reader payload sp) =
     (if 4 \<le> length payload + length sp
      then Inr (VsidBox (Uint32 (take 4 (payload @ sp))))
      else Inl SliceBounds)"
  by (simp add: DecodeVsid_def reslice_def cap_def)

theorem DecodeVsid_short_witness:
  "length [1, 2 :: byte] < 4 \<and>
   DecodeVsid (headerOf ''vsid'' [1, 2]) 0 (Reader [1, 2] []) = Inl SliceBounds \<and>
   is_panic SliceBounds"
proof -
  have h: "length [1, 2 :: byte] < 4" by simp
  from DecodeVsid_short [OF h, of "headerOf ''vsid'' [1, 2]" 0 "[]"] h
  show ?thesis by simp
qed

section \<open>Properties of the fragment\<close>

subsection \<open>Pointers and evaluation\<close>

lemma deref_Some: "deref m (Some a) = Inr v \<longleftrightarrow> m a = Some v"
  by (simp add: deref_def split: option.splits)

lemma deref_Inr: "deref m p = Inr v \<longleftrightarrow> (\<exists>a. p = Some a \<and> m a = Some v)"
  by (auto simp: deref_def split: option.splits)

lemma modify_Some: "m a = Some v \<Longrightarrow> modify m (Some a) g = Inr (m(a \<mapsto> g v))"
  by (simp add: modify_def)

lemma bindE_weak_cong: "m = m' \<Longrightarrow> bindE m f = bindE m' f"
  by simp

lemmas by_value = let_weak_cong bindE_weak_cong prod.case_cong_weak sum.case_cong_weak
  option.case_cong_weak

lemmas store_defs = deref_def modify_def newMoof_def newTraf_def newTfdt_def newMdat_def
  CreateMfhd_def CreateTfhd_def CreateTrun_def MoofAddMfhd_def MoofAddTraf_def TrafAddTfhd_def
  TrafAddTfdt_def TrafAddTrun_def ignoreErr_def

subsection \<open>The fragments that \<open>CreateFragment\<close> and \<open>CreateMultiTrackFragment\<close> make\<close>

lemma addTrack_eq:
  assumes "moofs h a = Some m"
  shows "addTrack h (Some a) trackID =
     h\<lparr>moofs := (moofs h)(a \<mapsto>
          m\<lparr>Traf := (if Traf m = None then Some (fresh h) else Traf m),
            Trafs := Trafs m @ [Some (fresh h)]\<rparr>),
       trafs := (trafs h)(fresh h \<mapsto>
          \<lparr>Tfhd = Some (fresh h + 1), Tfdt = Some (fresh h + 2), Trun = Some (fresh h + 3),
           Truns = [Some (fresh h + 3)]\<rparr>),
       tfhds := (tfhds h)(fresh h + 1 \<mapsto> tfhdOf trackID),
       tfdts := (tfdts h)(fresh h + 2 \<mapsto> \<lparr>BaseMediaDecodeTime = 0\<rparr>),
       truns := (truns h)(fresh h + 3 \<mapsto> trun0),
       fresh := fresh h + 4\<rparr>"
  using assms
  by (auto simp: addTrack_def store_defs Let_def tfhdOf_def trun0_def eval_nat_numeral
      cong: by_value)

lemma CreateFragment_example: "CreateFragment emptyHeap 7 1 = Inr (frag1, heap1)"
  by (simp add: CreateFragment_def store_defs addTrack_eq emptyHeap_def NewFragment_def
      AddChild_def frag1_def heap1_def Let_def eval_nat_numeral cong: by_value)

lemma CreateMultiTrackFragment_example:
  "CreateMultiTrackFragment emptyHeap 7 [1, 2] = Inr (frag2, heap2)"
  by (simp add: CreateMultiTrackFragment_def store_defs addTrack_eq emptyHeap_def NewFragment_def
      AddChild_def frag2_def heap2_def Let_def eval_nat_numeral cong: by_value)

lemma CreateFragment_singleTrack:
  "\<exists>f h'. CreateFragment h seqNumber trackID = Inr (f, h') \<and>
     singleTrack h' f (fresh h + 5) (fresh h + 4) (fresh h + 6)"
  by (simp add: CreateFragment_def store_defs addTrack_eq NewFragment_def AddChild_def
      singleTrack_def Let_def cong: by_value)

lemma AddFullSample_example: "AddFullSample heap2 frag2 sample1 = Inr heap3"
  by (simp add: AddFullSample_def deref_def modify_def heap3_def frag2_def heap2_def trun0_def
      sample1_def SetBaseMediaDecodeTime_def AddSample_def AddSampleData_def Let_def
      Sample.defs FullSample.defs fun_upd_twist cong: by_value)

subsection \<open>The accessor \<open>moof.Traf\<close>\<close>

text \<open>
  In every fragment that \<open>CreateFragment\<close> or \<open>CreateMultiTrackFragment\<close> makes, from
  any store and for any list of tracks, the accessor \<open>Traf\<close> of the \<open>moof\<close> is the
  first element of \<open>Trafs\<close> (and nil when there is none): adding a track keeps it so,
  and \<open>AddFullSample\<close> does not touch the \<open>moof\<close>.
\<close>

lemma addTrack_trafIsFirst:
  assumes "moofs h a = Some m" and "trafIsFirst m"
  shows "\<exists>m'. moofs (addTrack h (Some a) trackID) a = Some m' \<and> trafIsFirst m' \<and>
           Trafs m' = Trafs m @ [Some (fresh h)]"
  using assms
  by (cases "Trafs m") (auto simp: addTrack_eq trafIsFirst_def)

lemma fold_addTrack_trafIsFirst:
  assumes "moofs h a = Some m" and "trafIsFirst m"
  shows "\<exists>m'. moofs (fold (\<lambda>trackID h. addTrack h (Some a) trackID) trackIDs h) a = Some m' \<and>
           trafIsFirst m' \<and> length (Trafs m') = length (Trafs m) + length trackIDs"
  using assms
proof (induction trackIDs arbitrary: h m)
  case Nil
  then show ?case by simp
next
  case (Cons t ts)
  from addTrack_trafIsFirst [OF Cons.prems, of t] obtain m1 where
    m1: "moofs (addTrack h (Some a) t) a = Some m1" "trafIsFirst m1"
        "Trafs m1 = Trafs m @ [Some (fresh h)]"
    by blast
  from Cons.IH [OF m1(1,2)] m1(3) show ?case
    by auto
qed

lemma newMdat_moofs: "moofs (snd (newMdat h)) = moofs h"
  by (simp add: newMdat_def)

lemma CreateFragment_trafIsFirst:
  "\<exists>f h' m. CreateFragment h seqNumber trackID = Inr (f, h') \<and>
     deref (moofs h') (Moof f) = Inr m \<and> trafIsFirst m \<and> Trafs m = [Some (fresh h + 2)]"
  by (simp add: CreateFragment_def store_defs addTrack_eq NewFragment_def AddChild_def
      trafIsFirst_def Let_def cong: by_value)

lemma CreateMultiTrackFragment_trafIsFirst:
  "\<exists>f h' m. CreateMultiTrackFragment h seqNumber trackIDs = Inr (f, h') \<and>
     deref (moofs h') (Moof f) = Inr m \<and> trafIsFirst m \<and>
     length (Trafs m) = length trackIDs"
proof -
  let ?m0 = "\<lparr>Mfhd = Some (Suc (fresh h)), Traf = None, Trafs = [], StartPos = 0\<rparr>"
  let ?h3 = "h\<lparr>mfhds := (mfhds h)(Suc (fresh h) \<mapsto> \<lparr>SequenceNumber = seqNumber\<rparr>),
               fresh := Suc (Suc (fresh h)),
               moofs := (moofs h)(fresh h \<mapsto> ?m0)\<rparr>"
  let ?h4 = "fold (\<lambda>trackID ha. addTrack ha (Some (fresh h)) trackID) trackIDs ?h3"
  have "moofs ?h3 (fresh h) = Some ?m0" "trafIsFirst ?m0"
    by (simp_all add: trafIsFirst_def)
  from fold_addTrack_trafIsFirst [OF this, of trackIDs] obtain m where
    m: "moofs ?h4 (fresh h) = Some m" "trafIsFirst m" "length (Trafs m) = length trackIDs"
    by auto
  have "CreateMultiTrackFragment h seqNumber trackIDs =
          Inr (\<lparr>Prft = None, Moof = Some (fresh h), Mdat = fst (newMdat ?h4),
                Children = [MoofRef (Some (fresh h)), MdatRef (fst (newMdat ?h4))]\<rparr>,
               snd (newMdat ?h4))"
    by (simp add: CreateMultiTrackFragment_def store_defs NewFragment_def AddChild_def Let_def
        split_beta cong: by_value)
  with m show ?thesis
    by (simp add: deref_def newMdat_moofs)
qed

lemma AddFullSample_moofs:
  assumes "AddFullSample h f s = Inr h'"
  shows "moofs h' = moofs h"
  using assms
  by (auto simp: AddFullSample_def SetBaseMediaDecodeTime_def AddSample_def AddSampleData_def
      bindE_Inr_iff Let_def split: if_splits)

subsection \<open>Children and accessors of a fragment\<close>

lemma AddChild_asserted:
  assumes "accessorsAmongChildren f" and "asserted b"
  shows "\<exists>f'. AddChild f b = Inr f' \<and> Children f' = Children f @ [b] \<and>
           accessorsAmongChildren f'"
  using assms
  by (cases b) (auto simp: AddChild_def accessorsAmongChildren_def)

text \<open>
  C10: after any sequence of \<open>AddChild\<close> calls on a fragment whose accessors are nil or
  among its children (the new fragment is one), every box added is in \<open>Children\<close>, in
  call order and whatever its type, and \<open>Prft\<close>, \<open>Moof\<close> and \<open>Mdat\<close> are each nil or
  an element of \<open>Children\<close>. The calls run to the end when every box whose \<open>Type()\<close> is
  \<open>prft\<close>, \<open>moof\<close> or \<open>mdat\<close> has the dynamic type that the type assertion expects.
\<close>

theorem AddChild_sequence:
  assumes "accessorsAmongChildren f" and "list_all asserted bs"
  shows "\<exists>f'. AddChildren f bs = Inr f' \<and> Children f' = Children f @ bs \<and>
           accessorsAmongChildren f'"
  using assms
proof (induction bs arbitrary: f)
  case Nil
  then show ?case by simp
next
  case (Cons b bs)
  from Cons.prems obtain f1 where
    1: "AddChild f b = Inr f1" "Children f1 = Children f @ [b]" "accessorsAmongChildren f1"
    using AddChild_asserted [of f b] by auto
  from Cons.IH [OF 1(3)] Cons.prems(2) obtain f' where
    "AddChildren f1 bs = Inr f'" "Children f' = Children f1 @ bs" "accessorsAmongChildren f'"
    by auto
  with 1 show ?case by simp
qed

theorem AddChild_sequence_witness:
  "accessorsAmongChildren NewFragment \<and>
   list_all asserted [PrftRef (Some 0), MoofRef (Some 1), OtherRef ''styp'' 2, MdatRef (Some 3)] \<and>
   AddChildren NewFragment
     [PrftRef (Some 0), MoofRef (Some 1), OtherRef ''styp'' 2, MdatRef (Some 3)] =
     Inr \<lparr>Prft = Some 0, Moof = Some 1, Mdat = Some 3,
          Children = [PrftRef (Some 0), MoofRef (Some 1), OtherRef ''styp'' 2, MdatRef (Some 3)]\<rparr>"
proof -
  have h1: "accessorsAmongChildren NewFragment"
    by (simp add: accessorsAmongChildren_def NewFragment_def)
  have h2: "list_all asserted [PrftRef (Some 0), MoofRef (Some 1), OtherRef ''styp'' 2, MdatRef (Some 3)]"
    by simp
  from AddChild_sequence [OF h1 h2] h1 h2 show ?thesis
    by (simp add: AddChild_def NewFragment_def)
qed

subsection \<open>The sample resolver\<close>

text \<open>
  The precedence of the sources in the two scenarios of the spec: a duration comes from
  the sample (\<open>50\<close>), else from the \<open>tfhd\<close> (\<open>200\<close>), else from the \<open>trex\<close> (\<open>100\<close>);
  the flags of a first sample come from the sample (\<open>0xBB\<close>), else from the first
  sample flags of the run (\<open>0xAA\<close>), and those of a later sample from the \<open>tfhd\<close>.
\<close>

lemma resolveSample_duration:
  "Dur (resolveSample trun0 ((tfhdOf 1)\<lparr>DefaultSampleDuration := Some 200\<rparr>)
          (Some (trex3\<lparr>TrexBox.DefaultSampleDuration := 100\<rparr>)) first (s\<lparr>Dur := 50\<rparr>)) = 50"
  "Dur (resolveSample (trun0\<lparr>HasSampleDuration := False\<rparr>)
          ((tfhdOf 1)\<lparr>DefaultSampleDuration := Some 200\<rparr>)
          (Some (trex3\<lparr>TrexBox.DefaultSampleDuration := 100\<rparr>)) first s) = 200"
  "Dur (resolveSample (trun0\<lparr>HasSampleDuration := False\<rparr>) (tfhdOf 1)
          (Some (trex3\<lparr>TrexBox.DefaultSampleDuration := 100\<rparr>)) first s) = 100"
  by (simp_all add: resolveSample_def trun0_def tfhdOf_def trex3_def)

lemma resolveSample_flags:
  "Flags (resolveSample (trun0\<lparr>FirstSampleFlags := Some 0xAA\<rparr>) (tfhdOf 1) None True
            (s\<lparr>Flags := 0xBB\<rparr>)) = 0xBB"
  "Flags (resolveSample (trun0\<lparr>FirstSampleFlags := Some 0xAA, HasSampleFlags := False\<rparr>)
            ((tfhdOf 1)\<lparr>DefaultSampleFlags := Some 0xDD\<rparr>) None True s) = 0xAA"
  "Flags (resolveSample (trun0\<lparr>FirstSampleFlags := Some 0xAA, HasSampleFlags := False\<rparr>)
            ((tfhdOf 1)\<lparr>DefaultSampleFlags := Some 0xDD\<rparr>) None False s) = 0xDD"
  by (simp_all add: resolveSample_def trun0_def tfhdOf_def)

lemma findTraf_no_match:
  "trafTrackIDs h ps = Some ids \<Longrightarrow> trackID \<notin> set ids \<Longrightarrow> findTraf h ps trackID = Inr None"
  by (induction ps arbitrary: ids) (auto split: sum.splits option.splits)

text \<open>
  C4: when the \<open>trex\<close> is not nil and its track ID is the track ID of no \<open>traf\<close> of the
  \<open>moof\<close>, \<open>GetFullSamples\<close> returns no samples and no error; when the \<open>trex\<close> is nil
  it resolves the first \<open>traf\<close> of the \<open>moof\<close>, the head of \<open>Trafs\<close>. The function
  reads the first \<open>traf\<close> through the accessor \<open>moof.Traf\<close>, which is the head of
  \<open>Trafs\<close> in every fragment made by \<open>CreateFragment\<close> or \<open>CreateMultiTrackFragment\<close>
  (the lemmas on \<open>trafIsFirst\<close> above).
\<close>

theorem GetFullSamples_selection:
  assumes "deref (moofs h) (Moof f) = Inr m"
    and "trafTrackIDs h (Trafs m) = Some ids"
    and "TrexBox.TrackID tx \<notin> set ids"
  shows "GetFullSamples h f (Some tx) = Inr [] \<and>
         (trafIsFirst m \<longrightarrow> Trafs m = first # rest \<longrightarrow>
            GetFullSamples h f None = trafSamples h (Moof f) (Mdat f) first None)"
  using assms by (auto simp: GetFullSamples_def findTraf_no_match trafIsFirst_def)

theorem GetFullSamples_selection_witness:
  "deref (moofs heap3) (Moof frag2) =
     Inr \<lparr>Mfhd = Some 1, Traf = Some 2, Trafs = [Some 2, Some 6], StartPos = 0\<rparr> \<and>
   trafTrackIDs heap3 [Some 2, Some 6] = Some [1, 2] \<and>
   TrexBox.TrackID trex3 \<notin> set [1, 2] \<and>
   trafIsFirst \<lparr>Mfhd = Some 1, Traf = Some 2, Trafs = [Some 2, Some 6], StartPos = 0\<rparr> \<and>
   GetFullSamples heap3 frag2 (Some trex3) = Inr [] \<and>
   trafSamples heap3 (Moof frag2) (Mdat frag2) (Some 2) None = Inr [sample1] \<and>
   GetFullSamples heap3 frag2 None = Inr [sample1]"
proof -
  let ?m = "\<lparr>Mfhd = Some 1, Traf = Some 2, Trafs = [Some 2, Some 6], StartPos = 0\<rparr>"
  have h1: "deref (moofs heap3) (Moof frag2) = Inr ?m"
    by (simp add: deref_def heap3_def heap2_def frag2_def)
  have h2: "trafTrackIDs heap3 (Trafs ?m) = Some [1, 2]"
    by (simp add: deref_def heap3_def heap2_def tfhdOf_def)
  have h3: "TrexBox.TrackID trex3 \<notin> set [1, 2]"
    by (simp add: trex3_def)
  have h4: "trafIsFirst ?m"
    by (simp add: trafIsFirst_def)
  have h5: "Trafs ?m = Some 2 # [Some 6]"
    by simp
  have ev: "trafSamples heap3 (Moof frag2) (Mdat frag2) (Some 2) None = Inr [sample1]"
    by (simp add: trafSamples_def deref_def heap3_def heap2_def frag2_def trun0_def tfhdOf_def
        sample1_def AddSampleDefaultValues_def resolveSample_def baseOffset_def
        TrunGetFullSamples_def Let_def Sample.defs FullSample.defs cong: by_value)
  from GetFullSamples_selection [OF h1 h2 h3, of "Some 2" "[Some 6]"] h1 h2 h3 h4 h5 ev
  show ?thesis
    by simp
qed

text \<open>
  C5: the base offset of a run is, modulo \<open>2^64\<close>, the number the spec describes:
  \<open>0\<close>, or the base data offset of the \<open>tfhd\<close> if it has one, or else the start of
  the \<open>moof\<close> if the \<open>tfhd\<close> has default-base-is-moof; plus the signed data offset of
  the run if it has one.
\<close>

theorem baseOffset_spec:
  "uint (baseOffset tfhd moofStartPos trun) = specBaseOffset tfhd moofStartPos trun mod 2 ^ 64"
proof -
  have s: "uint (scast d + b) = (uint b + sint d) mod 2 ^ 64" for d :: i32 and b :: u64
  proof -
    have "sint (scast d :: u64) = sint d"
      by (rule sint_up_scast) (simp add: is_up)
    then have "uint (scast d :: u64) = sint d mod 2 ^ 64"
      by (simp add: uint_sint take_bit_eq_mod)
    then show ?thesis
      by (simp add: uint_word_ariths mod_simps ac_simps)
  qed
  have u: "uint b = uint b mod 2 ^ 64" for b :: u64
    using uint_bounded [of b] by simp
  show ?thesis
    using u [of "BaseDataOffset tfhd"] u [of moofStartPos]
    by (simp add: baseOffset_def specBaseOffset_def Let_def s)
qed

text \<open>
  Two runs: the scenario of the spec with default-base-is-moof, a data offset of
  \<open>120\<close>, the \<open>moof\<close> at \<open>0\<close> and the payload of the \<open>mdat\<close> at \<open>120\<close>, which resolves to
  the offset \<open>0\<close> in the \<open>mdat\<close>; and a base data offset of \<open>1000\<close> with the negative
  data offset \<open>-8\<close>.
\<close>

lemma baseOffset_examples:
  "baseOffset (tfhdOf 1) 0 (trun0\<lparr>DataOffset := 120\<rparr>) - 120 = 0"
  "baseOffset ((tfhdOf 1)\<lparr>HasBaseDataOffset := True, BaseDataOffset := 1000\<rparr>) 0
     (trun0\<lparr>DataOffset := - 8\<rparr>) = 992"
  by (simp_all add: baseOffset_def tfhdOf_def trun0_def)

lemma trunsLoop_append:
  "trunsLoop h tfhd trex sp mdat (xs @ ys) bt ss =
     bindE (trunsLoop h tfhd trex sp mdat xs bt ss)
       (\<lambda>(bt', ss'). trunsLoop h tfhd trex sp mdat ys bt' ss')"
proof (induction xs arbitrary: bt ss)
  case Nil
  show ?case by simp
next
  case (Cons x xs)
  show ?case
    by (simp add: Cons.IH bindE_def Let_def split: sum.splits prod.splits)
qed

lemma baseOffset_defaults:
  "baseOffset th sp (fst (AddSampleDefaultValues tr th trex)) = baseOffset th sp tr"
  by (simp add: baseOffset_def AddSampleDefaultValues_def Let_def)

lemma overshoot_word:
  assumes "n < unat (off :: u64)"
  shows "off > of_nat n"
proof -
  have "unat (of_nat n :: u64) \<le> n"
    by (simp add: unat_of_nat)
  with assms show ?thesis
    by (simp add: word_less_nat_alt)
qed

lemma trunsLoop_overshoot:
  assumes "deref (truns h) trun = Inr tr"
    and "deref (tfhds h) tfhd = Inr th"
    and "deref (mdats h) mdat = Inr md"
    and "length (MdatBox.Data md) < unat (baseOffset th sp tr - PayloadAbsoluteOffset md)"
  shows "trunsLoop h tfhd trex sp mdat (trun # rest) bt ss = Inl OffsetBeyondSize"
proof -
  obtain tr' total where a: "AddSampleDefaultValues tr th trex = (tr', total)"
    by (cases "AddSampleDefaultValues tr th trex")
  then have "baseOffset th sp tr' = baseOffset th sp tr"
    using baseOffset_defaults [of th sp tr trex] by simp
  with assms a show ?thesis
    by (simp add: overshoot_word)
qed

text \<open>
  C6: when \<open>GetFullSamples\<close> has processed the runs before a run of the selected
  \<open>traf\<close> and the offset of that run in the \<open>mdat\<close>, base offset minus the absolute
  offset of the payload, is beyond the length of the \<open>mdat\<close> data, \<open>GetFullSamples\<close>
  fails with the error of that name and returns no samples.
\<close>

theorem GetFullSamples_offset_out_of_range:
  assumes moof: "deref (moofs h) (Moof f) = Inr m"
    and sel: "(case trex of None \<Rightarrow> Inr (Some (Traf m))
                 | Some tx \<Rightarrow> findTraf h (Trafs m) (TrexBox.TrackID tx)) = Inr (Some traf)"
    and traf: "deref (trafs h) traf = Inr t"
    and tfdt: "deref (tfdts h) (Tfdt t) = Inr td"
    and runs: "Truns t = before @ trun # after"
    and ran: "trunsLoop h (Tfhd t) trex (StartPos m) (Mdat f) before (BaseMediaDecodeTime td) [] =
                 Inr (bt, ss)"
    and trun: "deref (truns h) trun = Inr tr"
    and tfhd: "deref (tfhds h) (Tfhd t) = Inr th"
    and mdat: "deref (mdats h) (Mdat f) = Inr md"
    and over: "length (MdatBox.Data md) <
                 unat (baseOffset th (StartPos m) tr - PayloadAbsoluteOffset md)"
  shows "GetFullSamples h f trex = Inl OffsetBeyondSize"
proof -
  have "trunsLoop h (Tfhd t) trex (StartPos m) (Mdat f) (Truns t) (BaseMediaDecodeTime td) [] =
          Inl OffsetBeyondSize"
    by (simp add: runs trunsLoop_append ran trunsLoop_overshoot [OF trun tfhd mdat over]
          del: trunsLoop.simps)
  then have "trafSamples h (Moof f) (Mdat f) traf trex = Inl OffsetBeyondSize"
    by (simp add: trafSamples_def traf tfdt moof)
  with moof sel show ?thesis
    by (cases trex) (simp_all add: GetFullSamples_def)
qed

theorem GetFullSamples_offset_out_of_range_witness:
  "deref (moofs heapFar) (Moof frag1) =
     Inr \<lparr>Mfhd = Some 1, Traf = Some 2, Trafs = [Some 2], StartPos = 0\<rparr> \<and>
   deref (trafs heapFar) (Some 2) =
     Inr \<lparr>Tfhd = Some 3, Tfdt = Some 4, Trun = Some 5, Truns = [] @ Some 5 # []\<rparr> \<and>
   deref (tfdts heapFar) (Some 4) = Inr \<lparr>BaseMediaDecodeTime = 0\<rparr> \<and>
   trunsLoop heapFar (Some 3) None 0 (Mdat frag1) [] 0 [] = Inr (0, []) \<and>
   deref (truns heapFar) (Some 5) = Inr (trun0\<lparr>DataOffset := 100\<rparr>) \<and>
   deref (tfhds heapFar) (Some 3) = Inr (tfhdOf 1) \<and>
   deref (mdats heapFar) (Mdat frag1) = Inr \<lparr>PayloadAbsoluteOffset = 0, Data = []\<rparr> \<and>
   unat (baseOffset (tfhdOf 1) 0 (trun0\<lparr>DataOffset := 100\<rparr>) - 0) = 100 \<and>
   GetFullSamples heapFar frag1 None = Inl OffsetBeyondSize"
proof -
  let ?m = "\<lparr>Mfhd = Some 1, Traf = Some 2, Trafs = [Some 2], StartPos = 0\<rparr>"
  let ?t = "\<lparr>Tfhd = Some 3, Tfdt = Some 4, Trun = Some 5, Truns = [Some 5]\<rparr>"
  let ?td = "\<lparr>BaseMediaDecodeTime = 0\<rparr>"
  let ?md = "\<lparr>PayloadAbsoluteOffset = 0, Data = []\<rparr>"
  have moof: "deref (moofs heapFar) (Moof frag1) = Inr ?m"
    by (simp add: deref_def heapFar_def heap1_def frag1_def)
  have sel: "(case None of None \<Rightarrow> Inr (Some (Traf ?m))
                | Some tx \<Rightarrow> findTraf heapFar (Trafs ?m) (TrexBox.TrackID tx)) = Inr (Some (Some 2))"
    by simp
  have traf: "deref (trafs heapFar) (Some 2) = Inr ?t"
    by (simp add: deref_def heapFar_def heap1_def)
  have tfdt: "deref (tfdts heapFar) (Tfdt ?t) = Inr ?td"
    by (simp add: deref_def heapFar_def heap1_def)
  have runs: "Truns ?t = [] @ Some 5 # []"
    by simp
  have ran: "trunsLoop heapFar (Tfhd ?t) None (StartPos ?m) (Mdat frag1) []
               (BaseMediaDecodeTime ?td) [] = Inr (0, [])"
    by simp
  have trun: "deref (truns heapFar) (Some 5) = Inr (trun0\<lparr>DataOffset := 100\<rparr>)"
    by (simp add: deref_def heapFar_def heap1_def)
  have tfhd: "deref (tfhds heapFar) (Tfhd ?t) = Inr (tfhdOf 1)"
    by (simp add: deref_def heapFar_def heap1_def)
  have mdat: "deref (mdats heapFar) (Mdat frag1) = Inr ?md"
    by (simp add: deref_def heapFar_def heap1_def frag1_def)
  have off: "unat (baseOffset (tfhdOf 1) 0 (trun0\<lparr>DataOffset := 100\<rparr>) - 0) = 100"
    by (simp add: baseOffset_def tfhdOf_def trun0_def)
  have over: "length (MdatBox.Data ?md) <
                unat (baseOffset (tfhdOf 1) (StartPos ?m) (trun0\<lparr>DataOffset := 100\<rparr>)
                  - PayloadAbsoluteOffset ?md)"
    using off by simp
  from GetFullSamples_offset_out_of_range [OF moof sel traf tfdt runs ran trun tfhd mdat over]
    moof traf tfdt ran trun tfhd mdat off
  show ?thesis
    by simp
qed

subsection \<open>Adding samples\<close>

text \<open>
  C8: on a fragment laid out for one track, as \<open>CreateFragment\<close> makes it,
  \<open>AddFullSample\<close> returns, with the sample appended to the run and counted, the data
  of the sample appended to the data of the \<open>mdat\<close>, and the base media decode time of
  the \<open>tfdt\<close> set to the decode time of the sample when the sample count of the run was
  zero before the call and left as it was otherwise. The fragment stays laid out for
  one track.
\<close>

theorem AddFullSample_effect:
  assumes wf: "singleTrack h f trun tfdt mdat"
    and tr: "truns h trun = Some tr"
    and td: "tfdts h tfdt = Some td"
    and md: "mdats h mdat = Some md"
  shows "\<exists>h'. AddFullSample h f s = Inr h' \<and>
           truns h' trun =
             Some (tr\<lparr>Samples := Samples tr @ [Sample.truncate s],
                       SampleCount := SampleCount tr + 1\<rparr>) \<and>
           mdats h' mdat = Some (md\<lparr>MdatBox.Data := MdatBox.Data md @ FullSample.Data s\<rparr>) \<and>
           tfdts h' tfdt =
             Some (if SampleCount tr = 0 then td\<lparr>BaseMediaDecodeTime := DecodeTime s\<rparr> else td) \<and>
           singleTrack h' f trun tfdt mdat"
proof -
  from wf obtain m t where
    m: "deref (moofs h) (Moof f) = Inr m" and t: "deref (trafs h) (Traf m) = Inr t"
    and p: "Trun t = Some trun" "Tfdt t = Some tfdt" "Mdat f = Some mdat"
    by (auto simp: singleTrack_def split: sum.splits)
  show ?thesis
    using m t p tr td md
    by (auto simp: AddFullSample_def SetBaseMediaDecodeTime_def AddSample_def AddSampleData_def
        modify_def deref_def singleTrack_def Let_def split: option.splits)
qed

lemma singleTrack_heap1: "singleTrack heap1 frag1 5 4 6"
  by (simp add: singleTrack_def deref_def heap1_def frag1_def)

theorem AddFullSample_effect_witness:
  "CreateFragment emptyHeap 7 1 = Inr (frag1, heap1) \<and>
   singleTrack heap1 frag1 5 4 6 \<and>
   truns heap1 5 = Some trun0 \<and>
   tfdts heap1 4 = Some \<lparr>BaseMediaDecodeTime = 0\<rparr> \<and>
   mdats heap1 6 = Some \<lparr>PayloadAbsoluteOffset = 0, Data = []\<rparr> \<and>
   (\<exists>h'. AddFullSample heap1 frag1 sample1 = Inr h' \<and>
      truns h' 5 = Some (trun0\<lparr>Samples := [Sample.truncate sample1], SampleCount := 1\<rparr>) \<and>
      mdats h' 6 = Some \<lparr>PayloadAbsoluteOffset = 0, Data = [0xDE, 0xAD, 0xBE, 0xEF]\<rparr> \<and>
      tfdts h' 4 = Some \<lparr>BaseMediaDecodeTime = 1000\<rparr>)"
proof -
  have h1: "singleTrack heap1 frag1 5 4 6"
    by (rule singleTrack_heap1)
  have h2: "truns heap1 5 = Some trun0"
    by (simp add: heap1_def)
  have h3: "tfdts heap1 4 = Some \<lparr>BaseMediaDecodeTime = 0\<rparr>"
    by (simp add: heap1_def)
  have h4: "mdats heap1 6 = Some \<lparr>PayloadAbsoluteOffset = 0, Data = []\<rparr>"
    by (simp add: heap1_def)
  from AddFullSample_effect [OF h1 h2 h3 h4, of sample1] h1 h2 h3 h4 CreateFragment_example
  show ?thesis
    by (auto simp: trun0_def sample1_def)
qed

lemma trackLoop_kept:
  "trafTrackIDs h ps = Some ids \<Longrightarrow> \<exists>a. trackLoop h ps trackID (Some b) = Inr (Some a)"
proof (induction ps arbitrary: ids b)
  case Nil
  show ?case by simp
next
  case (Cons p ps)
  from Cons.prems obtain a t tfhd ids' where
    p: "p = Some a" "deref (trafs h) p = Inr t" "deref (tfhds h) (Tfhd t) = Inr tfhd"
    and rest: "trafTrackIDs h ps = Some ids'"
    by (auto simp: deref_Inr split: sum.splits option.splits)
  from Cons.IH [OF rest, of a] p show ?case
    by (simp add: Let_def)
qed

lemma AddFullSampleToTrack_last:
  assumes "deref (moofs h) (Moof f) = Inr m"
    and "trafTrackIDs h (Trafs m) = Some ids"
    and "ids \<noteq> []"
  shows "AddFullSampleToTrack h f s trackID = Inr h"
proof -
  from assms(2,3) obtain p ps where ps: "Trafs m = p # ps"
    by (cases "Trafs m") auto
  with assms(2) obtain a t tfhd ids' where
    p: "p = Some a" "deref (trafs h) p = Inr t" "deref (tfhds h) (Tfhd t) = Inr tfhd"
    and rest: "trafTrackIDs h ps = Some ids'"
    by (auto simp: deref_Inr split: sum.splits option.splits)
  from trackLoop_kept [OF rest, of trackID a] p
  have "\<exists>a'. trackLoop h (Trafs m) trackID None = Inr (Some a')"
    by (cases "TfhdBox.TrackID tfhd = trackID") (simp_all add: ps Let_def)
  then obtain a' where "trackLoop h (Trafs m) trackID None = Inr (Some a')" ..
  with assms(1) show ?thesis
    by (simp add: AddFullSampleToTrack_def)
qed

lemma heap1_moof:
  "deref (moofs heap1) (Moof frag1) =
     Inr \<lparr>Mfhd = Some 1, Traf = Some 2, Trafs = [Some 2], StartPos = 0\<rparr>"
  by (simp add: deref_def heap1_def frag1_def)

lemma heap1_trackIDs: "trafTrackIDs heap1 [Some 2] = Some [1]"
  by (simp add: deref_def heap1_def tfhdOf_def)

text \<open>
  C2 does not hold of the code: on the fragment that \<open>CreateFragment\<close> makes for track
  \<open>1\<close>, \<open>AddFullSampleToTrack\<close> for track \<open>2\<close>, which no \<open>traf\<close> has, returns without
  an error. The loop leaves the last \<open>traf\<close> in the variable that is compared with nil.
\<close>

theorem AddFullSampleToTrack_unmatched:
  "CreateFragment emptyHeap 7 1 = Inr (frag1, heap1) \<and>
   trafTrackIDs heap1 [Some 2] = Some [1] \<and>
   AddFullSampleToTrack heap1 frag1 sample1 2 = Inr heap1"
  using AddFullSampleToTrack_last [OF heap1_moof, of "[1]" sample1 2] heap1_trackIDs
    CreateFragment_example
  by simp

text \<open>
  C3 does not hold of the code: on the same fragment, \<open>AddFullSampleToTrack\<close> for track
  \<open>1\<close> returns without an error and leaves the store as it was. The run has no sample
  and the \<open>mdat\<close> no data.
\<close>

theorem AddFullSampleToTrack_adds_nothing:
  "AddFullSampleToTrack heap1 frag1 sample1 1 = Inr heap1 \<and>
   truns heap1 5 = Some trun0 \<and> Samples trun0 = [] \<and>
   mdats heap1 6 = Some \<lparr>PayloadAbsoluteOffset = 0, Data = []\<rparr>"
  using AddFullSampleToTrack_last [OF heap1_moof, of "[1]" sample1 1] heap1_trackIDs
  by (simp add: heap1_def trun0_def)


end
